theory Spec2Isabelle
  imports Main "HOL-Library.Multiset" "HOL-Library.AList" "HOL-Library.Char_ord"
    "HOL-Library.List_Lexorder"
begin

section \<open>Python values and exceptions\<close>

text \<open>
  The scalar values that the configuration fields of \<^verbatim>\<open>cc_dynamodb\<close> take: keyword
  arguments of \<^verbatim>\<open>set_config\<close> are \<^verbatim>\<open>None\<close> (absent), booleans, integers or
  strings; \<^verbatim>\<open>os.environ.get\<close> returns \<^verbatim>\<open>None\<close> or a string.
\<close>

datatype pyval = PyNone | PyBool bool | PyInt int | PyStr string

text \<open>Python truthiness: \<^verbatim>\<open>None\<close>, \<^verbatim>\<open>False\<close>, \<^verbatim>\<open>0\<close> and \<^verbatim>\<open>''\<close> are falsy.\<close>

fun truthy :: "pyval \<Rightarrow> bool" where
  "truthy PyNone = False"
| "truthy (PyBool b) = b"
| "truthy (PyInt n) = (n \<noteq> 0)"
| "truthy (PyStr s) = (s \<noteq> [])"

text \<open>\<^verbatim>\<open>x or y\<close>: the left operand when it is truthy, the right operand otherwise.\<close>

definition py_or :: "pyval \<Rightarrow> pyval \<Rightarrow> pyval" where
  "py_or x y = (if truthy x then x else y)"

text \<open>
  The exceptions of the module (\<^verbatim>\<open>ConfigurationError\<close>, \<^verbatim>\<open>UnknownTableException\<close>,
  \<^verbatim>\<open>TableAlreadyExistsException\<close>, \<^verbatim>\<open>UpdateTableException\<close>), boto's
  \<^verbatim>\<open>JSONResponseError\<close> with its \<^verbatim>\<open>status\<close>, \<^verbatim>\<open>error_code\<close> and \<^verbatim>\<open>body\<close>, and the
  built-in exceptions the code can meet. \<^verbatim>\<open>OtherError\<close> stands for any exception of
  another class (a transport failure, say).
\<close>

datatype exn =
    JSONResponseError int string string
  | ConfigurationError string
  | UnknownTableException string
  | TableAlreadyExistsException string
  | UpdateTableException string
  | KeyError string
  | AttributeError string
  | TypeError string
  | ValueError string
  | IOError string
  | OtherError string

subsection \<open>The built-in \<^verbatim>\<open>int()\<close>\<close>

definition is_space :: "char \<Rightarrow> bool" where
  "is_space c = (c \<in> set [CHR '' '', CHR 0x09, CHR 0x0A, CHR 0x0B, CHR 0x0C, CHR 0x0D])"

definition is_digit :: "char \<Rightarrow> bool" where
  "is_digit c = (c \<in> set ''0123456789'')"

definition digit_val :: "char \<Rightarrow> int" where
  "digit_val c = int (of_char c) - 48"

definition digits_val :: "string \<Rightarrow> int" where
  "digits_val ds = foldl (\<lambda>a d. 10 * a + digit_val d) 0 ds"

text \<open>
  \<^verbatim>\<open>int(s)\<close> on a string, base 10: optional white space, an optional sign, at least one
  decimal digit, optional white space; anything else is a \<^verbatim>\<open>ValueError\<close>.
\<close>

definition int_of_string :: "string \<Rightarrow> int option" where
  "int_of_string s =
     (let s1 = dropWhile is_space s;
          neg = (case s1 of [] \<Rightarrow> False | c # _ \<Rightarrow> c = CHR ''-'');
          s2 = (case s1 of [] \<Rightarrow> [] | c # r \<Rightarrow> if c = CHR ''-'' \<or> c = CHR ''+'' then r else s1);
          ds = takeWhile is_digit s2;
          rest = dropWhile is_space (dropWhile is_digit s2)
      in if ds = [] \<or> rest \<noteq> [] then None
         else Some (if neg then - digits_val ds else digits_val ds))"

fun py_int :: "pyval \<Rightarrow> exn + int" where
  "py_int PyNone = Inl (TypeError ''int() argument must be a string or a number'')"
| "py_int (PyBool b) = Inr (if b then 1 else 0)"
| "py_int (PyInt n) = Inr n"
| "py_int (PyStr s) =
     (case int_of_string s of
        None \<Rightarrow> Inl (ValueError (''invalid literal for int() with base 10: '' @ s))
      | Some n \<Rightarrow> Inr n)"

section \<open>Configuration data\<close>

text \<open>A throughput is boto's dictionary \<^verbatim>\<open>{'read': r, 'write': w}\<close>.\<close>

record throughput =
  read_capacity :: int
  write_capacity :: int

text \<open>One key declaration of the YAML file (\<^verbatim>\<open>name\<close>, \<^verbatim>\<open>type\<close>, \<^verbatim>\<open>data_type\<close>).\<close>

record key_details =
  kd_name :: string
  kd_type :: string
  kd_data_type :: string

text \<open>
  One index declaration of the YAML file; \<^verbatim>\<open>parts\<close> may be absent
  (\<^verbatim>\<open>index_details.get('parts', [])\<close>).
\<close>

record index_details =
  id_name :: string
  id_type :: string
  id_parts :: "key_details list option"

text \<open>
  The parsed YAML document. A dictionary is an association list; a section that the
  code reads with \<^verbatim>\<open>[...]\<close> or \<^verbatim>\<open>.get\<close> may be absent (\<open>None\<close>).
\<close>

record yaml_config =
  schemas :: "(string \<times> key_details list) list option"
  global_indexes :: "(string \<times> index_details list) list option"
  indexes :: "(string \<times> index_details list) list option"
  columns :: "(string \<times> (string \<times> string) list) list option"
  default_throughput :: "throughput option"

text \<open>
  The cached \<^verbatim>\<open>Bunch\<close>. The type of the \<^verbatim>\<open>yaml\<close> field is a parameter: the document
  itself where the configuration is handled as a value, an address where it lives in a
  store.
\<close>

record 'y bunch =
  yaml :: 'y
  namespace :: pyval
  aws_access_key_id :: pyval
  aws_secret_access_key :: pyval
  host :: pyval
  port :: pyval
  is_secure :: pyval

type_synonym config = "yaml_config bunch"

text \<open>The keyword arguments of \<^verbatim>\<open>set_config\<close>; \<^verbatim>\<open>kwargs.get\<close> of an absent key is \<^verbatim>\<open>None\<close>.\<close>

record kwargs =
  kw_table_config :: "string option"
  kw_namespace :: pyval
  kw_aws_access_key_id :: pyval
  kw_aws_secret_access_key :: pyval
  kw_host :: pyval
  kw_port :: pyval
  kw_is_secure :: pyval

definition no_kwargs :: kwargs where
  "no_kwargs = \<lparr>kw_table_config = None, kw_namespace = PyNone, kw_aws_access_key_id = PyNone,
     kw_aws_secret_access_key = PyNone, kw_host = PyNone, kw_port = PyNone,
     kw_is_secure = PyNone\<rparr>"

section \<open>Schema objects and the remote service\<close>

text \<open>
  A key object of \<^verbatim>\<open>boto.dynamodb2.fields\<close> (\<^verbatim>\<open>HashKey\<close>, \<^verbatim>\<open>RangeKey\<close>): its name, its
  \<^verbatim>\<open>attr_type\<close> and its \<^verbatim>\<open>data_type\<close>.
\<close>

record key =
  key_name :: string
  key_attr_type :: string
  key_data_type :: string

text \<open>
  \<^verbatim>\<open>item.schema()\<close> is \<^verbatim>\<open>{'AttributeName': name, 'KeyType': attr_type}\<close> and
  \<^verbatim>\<open>item.definition()\<close> is \<^verbatim>\<open>{'AttributeName': name, 'AttributeType': data_type}\<close>.
  A two-entry dictionary of this shape is a pair whose first component is the
  \<^verbatim>\<open>AttributeName\<close>.
\<close>

definition key_schema :: "key \<Rightarrow> string \<times> string" where
  "key_schema k = (key_name k, key_attr_type k)"

definition key_definition :: "key \<Rightarrow> string \<times> string" where
  "key_definition k = (key_name k, key_data_type k)"

text \<open>
  A secondary index object: name, class and key parts. Only the global index classes
  have the attribute \<^verbatim>\<open>throughput\<close>.
\<close>

record index =
  ix_name :: string
  ix_class :: string
  ix_parts :: "key list"
  ix_throughput :: "throughput option"

datatype connection =
    DynamoDBConnection pyval pyval pyval pyval pyval
  | RegionConnection string pyval pyval

text \<open>
  The table handle \<^verbatim>\<open>table.Table(**init_data)\<close>, as the record of its constructor
  arguments. What boto keeps up to date inside the handle is not followed.
\<close>

record table =
  t_table_name :: string
  t_connection :: connection
  t_throughput :: throughput
  t_schema :: "key list"
  t_global_indexes :: "index list"
  t_indexes :: "index list"

text \<open>An entry of \<^verbatim>\<open>GlobalSecondaryIndexes\<close> in the upstream description.\<close>

record upstream_index =
  IndexName :: string
  ProvisionedThroughput :: throughput

text \<open>
  \<^verbatim>\<open>table_metadata['Table']\<close>, the upstream description: \<^verbatim>\<open>KeySchema\<close> (name and key
  type), \<^verbatim>\<open>AttributeDefinitions\<close> (name and attribute type) and the optional
  \<^verbatim>\<open>GlobalSecondaryIndexes\<close>.
\<close>

record table_metadata =
  KeySchema :: "(string \<times> string) list"
  AttributeDefinitions :: "(string \<times> string) list"
  GlobalSecondaryIndexes :: "upstream_index list option"

text \<open>
  The calls the module makes on a table handle. Each carries the handle's (namespaced)
  table name. \<^verbatim>\<open>Update\<close> carries the \<^verbatim>\<open>throughput\<close> argument as passed, where
  \<open>None\<close> is Python's \<^verbatim>\<open>False\<close>.
\<close>

datatype call =
    Describe string
  | Update string "throughput option"
  | CreateGSI string index
  | UpdateGSI string string throughput
  | DeleteGSI string string
  | Create table

section \<open>The process environment\<close>

text \<open>
  What the module reads from outside itself:
  \<^item> the environment variables, the default path \<^verbatim>\<open>config['CONFIG_PATH']\<close> of the
    package's \<^verbatim>\<open>Config\<close>, and the file system with the YAML parser (\<^verbatim>\<open>open\<close> and
    \<^verbatim>\<open>yaml.load\<close>, which may raise);
  \<^item> boto's modules: \<^verbatim>\<open>getattr(fields, t)\<close> for a key class (a constructor from name and
    data type) and for an index class (a constructor from name and parts), and
    \<^verbatim>\<open>getattr(types, t)\<close>; an unknown attribute is \<open>None\<close>;
  \<^item> the remote service as boto's table methods present it: the result of
    \<^verbatim>\<open>describe\<close>, and for every other call the exception it raises, if any; each is a
    function of the calls made so far;
  \<^item> the order in which a dictionary with the given keys is iterated.
\<close>

record env =
  environ :: "string \<Rightarrow> string option"
  CONFIG_PATH :: string
  load_yaml :: "string \<Rightarrow> exn + yaml_config"
  fields_key :: "string \<Rightarrow> (string \<Rightarrow> string \<Rightarrow> key) option"
  fields_index :: "string \<Rightarrow> (string \<Rightarrow> key list \<Rightarrow> index) option"
  types :: "string \<Rightarrow> string option"
  describe :: "call list \<Rightarrow> string \<Rightarrow> exn + table_metadata"
  respond :: "call list \<Rightarrow> call \<Rightarrow> exn option"
  key_order :: "string list \<Rightarrow> string list"

definition environ_get :: "env \<Rightarrow> string \<Rightarrow> pyval" where
  "environ_get E n = (case environ E n of None \<Rightarrow> PyNone | Some v \<Rightarrow> PyStr v)"

section \<open>set\_config and get\_config\<close>

text \<open>The module's global \<^verbatim>\<open>_cached_config\<close>, and the calls made on the service so far.\<close>

record state =
  cached_config :: "config option"
  trace :: "call list"

text \<open>
  \<^verbatim>\<open>set_config\<close> assigns \<^verbatim>\<open>_cached_config\<close> before it validates, so the global keeps the
  new \<^verbatim>\<open>Bunch\<close> also when a \<^verbatim>\<open>ConfigurationError\<close> is raised. A failure of
  \<^verbatim>\<open>open\<close> or \<^verbatim>\<open>yaml.load\<close> comes first and leaves the global as it was. The path is
  \<^verbatim>\<open>kwargs.pop('table_config', config['CONFIG_PATH'])\<close>.
\<close>

definition config_path :: "env \<Rightarrow> kwargs \<Rightarrow> string" where
  "config_path E kw = (case kw_table_config kw of Some p \<Rightarrow> p | None \<Rightarrow> CONFIG_PATH E)"

text \<open>The expression \<^verbatim>\<open>Bunch({...})\<close>: each field is \<^verbatim>\<open>kwargs.get(f) or os.environ.get(F)\<close>.\<close>

definition resolve_fields :: "env \<Rightarrow> kwargs \<Rightarrow> 'y \<Rightarrow> 'y bunch" where
  "resolve_fields E kw yaml_config =
     \<lparr>yaml = yaml_config,
      namespace = py_or (kw_namespace kw) (environ_get E ''CC_DYNAMODB_NAMESPACE''),
      aws_access_key_id =
        py_or (kw_aws_access_key_id kw) (environ_get E ''CC_DYNAMODB_ACCESS_KEY_ID''),
      aws_secret_access_key =
        py_or (kw_aws_secret_access_key kw) (environ_get E ''CC_DYNAMODB_SECRET_ACCESS_KEY''),
      host = py_or (kw_host kw) (environ_get E ''CC_DYNAMODB_HOST''),
      port = py_or (kw_port kw) (environ_get E ''CC_DYNAMODB_PORT''),
      is_secure = py_or (kw_is_secure kw) (environ_get E ''CC_DYNAMODB_IS_SECURE'')\<rparr>"

text \<open>
  The four checks on the new \<^verbatim>\<open>Bunch\<close>, in the order of the source. The result is the
  exception raised, or the \<^verbatim>\<open>Bunch\<close> after \<^verbatim>\<open>_cached_config.port = int(_cached_config.port)\<close>.
  Only \<^verbatim>\<open>ValueError\<close> is caught around \<^verbatim>\<open>int()\<close>.
\<close>

definition check_fields :: "'y bunch \<Rightarrow> exn + 'y bunch" where
  "check_fields c =
     (if \<not> truthy (namespace c) then
        Inl (ConfigurationError
          ''Missing namespace kwarg OR environment variable CC_DYNAMODB_NAMESPACE'')
      else if \<not> truthy (aws_access_key_id c) then
        Inl (ConfigurationError
          ''Missing aws_access_key_id kwarg OR environment variable CC_DYNAMODB_ACCESS_KEY_ID'')
      else if \<not> truthy (aws_secret_access_key c) then
        Inl (ConfigurationError
          ''Missing aws_secret_access_key kwarg OR environment variable CC_DYNAMODB_SECRET_ACCESS_KEY'')
      else if truthy (port c) then
        (case py_int (port c) of
           Inr n \<Rightarrow> Inr (c\<lparr>port := PyInt n\<rparr>)
         | Inl (ValueError m) \<Rightarrow>
             Inl (ConfigurationError
               (''Integer value expected for port OR environment variable CC_DYNAMODB_PORT. Got ''
                  @ (case port c of PyStr p \<Rightarrow> p | _ \<Rightarrow> [])))
         | Inl e \<Rightarrow> Inl e)
      else Inr c)"

definition set_config :: "env \<Rightarrow> kwargs \<Rightarrow> state \<Rightarrow> (exn + unit) \<times> state" where
  "set_config E kw s =
     (case load_yaml E (config_path E kw) of
        Inl e \<Rightarrow> (Inl e, s)
      | Inr yaml_config \<Rightarrow>
          let c = resolve_fields E kw yaml_config;
              s1 = s\<lparr>cached_config := Some c\<rparr>
          in (case check_fields c of
                Inl e \<Rightarrow> (Inl e, s1)
              | Inr c' \<Rightarrow> (Inr (), s1\<lparr>cached_config := Some c'\<rparr>)))"

text \<open>
  \<^verbatim>\<open>get_config\<close> loads the configuration when the global is unset and returns
  \<^verbatim>\<open>Bunch(copy.deepcopy(_cached_config.toDict()))\<close>: as a value, the cached
  configuration itself. (A \<^verbatim>\<open>Bunch\<close> with its seven keys is never falsy, so
  \<^verbatim>\<open>not _cached_config\<close> holds exactly for \<^verbatim>\<open>None\<close>.)
\<close>

definition get_config :: "env \<Rightarrow> kwargs \<Rightarrow> state \<Rightarrow> (exn + config) \<times> state" where
  "get_config E kw s =
     (case cached_config s of
        Some c \<Rightarrow> (Inr c, s)
      | None \<Rightarrow>
          (case set_config E kw s of
             (Inl e, s') \<Rightarrow> (Inl e, s')
           | (Inr u, s') \<Rightarrow>
               (case cached_config s' of
                  Some c \<Rightarrow> (Inr c, s')
                | None \<Rightarrow> (Inl (AttributeError ''toDict''), s'))))"

section \<open>Schema builder\<close>

text \<open>A list comprehension whose body may raise: the first exception ends it.\<close>

fun map_result :: "('a \<Rightarrow> exn + 'b) \<Rightarrow> 'a list \<Rightarrow> exn + 'b list" where
  "map_result f [] = Inr []"
| "map_result f (x # xs) =
     (case f x of
        Inl e \<Rightarrow> Inl e
      | Inr y \<Rightarrow> (case map_result f xs of Inl e \<Rightarrow> Inl e | Inr ys \<Rightarrow> Inr (y # ys)))"

definition build_key :: "env \<Rightarrow> key_details \<Rightarrow> exn + key" where
  "build_key E key_details =
     (case fields_key E (kd_type key_details) of
        None \<Rightarrow> Inl (AttributeError (kd_type key_details))
      | Some key_type \<Rightarrow>
          (case types E (kd_data_type key_details) of
             None \<Rightarrow> Inl (AttributeError (kd_data_type key_details))
           | Some data_type \<Rightarrow> Inr (key_type (kd_name key_details) data_type)))"

definition build_keys :: "env \<Rightarrow> key_details list \<Rightarrow> exn + key list" where
  "build_keys E keys_config = map_result (build_key E) keys_config"

definition build_secondary_index :: "env \<Rightarrow> index_details \<Rightarrow> exn + index" where
  "build_secondary_index E index_details =
     (case fields_index E (id_type index_details) of
        None \<Rightarrow> Inl (AttributeError (id_type index_details))
      | Some index_type \<Rightarrow>
          (case map_result (build_key E)
                  (case id_parts index_details of None \<Rightarrow> [] | Some ps \<Rightarrow> ps) of
             Inl e \<Rightarrow> Inl e
           | Inr parts \<Rightarrow> Inr (index_type (id_name index_details) parts)))"

definition build_secondary_indexes :: "env \<Rightarrow> index_details list \<Rightarrow> exn + index list" where
  "build_secondary_indexes E indexes_config = map_result (build_secondary_index E) indexes_config"

text \<open>\<^verbatim>\<open>d.get(k, default)\<close> on an optional section of the document.\<close>

definition section_get :: "(string \<times> 'a list) list option \<Rightarrow> string \<Rightarrow> 'a list" where
  "section_get sec k =
     (case sec of
        None \<Rightarrow> []
      | Some d \<Rightarrow> (case map_of d k of None \<Rightarrow> [] | Some v \<Rightarrow> v))"

text \<open>
  \<^verbatim>\<open>_get_table_metadata\<close>: the schema, the global indexes and the local indexes, built
  in this order. A \<^verbatim>\<open>KeyError\<close> from \<^verbatim>\<open>config['schemas'][table_name]\<close> becomes
  \<^verbatim>\<open>UnknownTableException\<close>.
\<close>

definition get_table_metadata ::
  "env \<Rightarrow> string \<Rightarrow> state \<Rightarrow> (exn + key list \<times> index list \<times> index list) \<times> state" where
  "get_table_metadata E table_name s =
     (case get_config E no_kwargs s of
        (Inl e, s') \<Rightarrow> (Inl e, s')
      | (Inr c, s') \<Rightarrow>
          (case (case schemas (yaml c) of None \<Rightarrow> None | Some d \<Rightarrow> map_of d table_name) of
             None \<Rightarrow> (Inl (UnknownTableException (''Unknown table: '' @ table_name)), s')
           | Some keys_config \<Rightarrow>
               (case build_keys E keys_config of
                  Inl e \<Rightarrow> (Inl e, s')
                | Inr schema \<Rightarrow>
                    (case build_secondary_indexes E
                            (section_get (global_indexes (yaml c)) table_name) of
                       Inl e \<Rightarrow> (Inl e, s')
                     | Inr gis \<Rightarrow>
                         (case build_secondary_indexes E
                                 (section_get (indexes (yaml c)) table_name) of
                            Inl e \<Rightarrow> (Inl e, s')
                          | Inr lis \<Rightarrow> (Inr (schema, gis, lis), s'))))))"

section \<open>Table names and lookups\<close>

text \<open>
  \<^verbatim>\<open>get_config().namespace + table_name\<close>: concatenation when the namespace is a
  string, a \<^verbatim>\<open>TypeError\<close> otherwise.
\<close>

definition get_table_name :: "env \<Rightarrow> string \<Rightarrow> state \<Rightarrow> (exn + string) \<times> state" where
  "get_table_name E table_name s =
     (case get_config E no_kwargs s of
        (Inl e, s') \<Rightarrow> (Inl e, s')
      | (Inr c, s') \<Rightarrow>
          (case namespace c of
             PyStr ns \<Rightarrow> (Inr (ns @ table_name), s')
           | _ \<Rightarrow> (Inl (TypeError ''unsupported operand type(s) for +''), s')))"

text \<open>\<^verbatim>\<open>table_name[len(get_config().namespace):]\<close>.\<close>

definition get_reverse_table_name :: "env \<Rightarrow> string \<Rightarrow> state \<Rightarrow> (exn + string) \<times> state" where
  "get_reverse_table_name E table_name s =
     (case get_config E no_kwargs s of
        (Inl e, s') \<Rightarrow> (Inl e, s')
      | (Inr c, s') \<Rightarrow>
          (case namespace c of
             PyStr ns \<Rightarrow> (Inr (drop (length ns) table_name), s')
           | _ \<Rightarrow> (Inl (TypeError ''object has no len()''), s')))"

text \<open>
  \<^verbatim>\<open>get_table_index\<close>: the two loops over the \<^verbatim>\<open>indexes\<close> section followed by the
  \<^verbatim>\<open>global_indexes\<close> section. Falling off the end returns \<^verbatim>\<open>None\<close>.
\<close>

fun find_index :: "string \<Rightarrow> index_details list \<Rightarrow> index_details option" where
  "find_index index_name [] = None"
| "find_index index_name (ix # table_indexes) =
     (if id_name ix = index_name then Some ix else find_index index_name table_indexes)"

fun scan_indexes ::
  "string \<Rightarrow> string \<Rightarrow> (string \<times> index_details list) list \<Rightarrow> index_details option" where
  "scan_indexes table_name index_name [] = None"
| "scan_indexes table_name index_name ((config_table_name, table_indexes) # all_indexes) =
     (if config_table_name = table_name then
        (case find_index index_name table_indexes of
           Some ix \<Rightarrow> Some ix
         | None \<Rightarrow> scan_indexes table_name index_name all_indexes)
      else scan_indexes table_name index_name all_indexes)"

definition get_table_index ::
  "env \<Rightarrow> string \<Rightarrow> string \<Rightarrow> state \<Rightarrow> (exn + index_details option) \<times> state" where
  "get_table_index E table_name index_name s =
     (case get_config E no_kwargs s of
        (Inl e, s') \<Rightarrow> (Inl e, s')
      | (Inr c, s') \<Rightarrow>
          (let all_indexes = (case indexes (yaml c) of None \<Rightarrow> [] | Some d \<Rightarrow> d) @
                             (case global_indexes (yaml c) of None \<Rightarrow> [] | Some d \<Rightarrow> d)
           in (Inr (scan_indexes table_name index_name all_indexes), s')))"

section \<open>Connection and table initialisation\<close>

definition get_connection :: "env \<Rightarrow> state \<Rightarrow> (exn + connection) \<times> state" where
  "get_connection E s =
     (case get_config E no_kwargs s of
        (Inl e, s') \<Rightarrow> (Inl e, s')
      | (Inr c, s') \<Rightarrow>
          (if truthy (host c) then
             (Inr (DynamoDBConnection (aws_access_key_id c) (aws_secret_access_key c) (host c)
                     (port c) (py_or (is_secure c) (PyBool False))), s')
           else
             (Inr (RegionConnection ''us-west-2'' (aws_access_key_id c)
                     (aws_secret_access_key c)), s')))"

text \<open>
  \<^verbatim>\<open>_get_or_default_throughput\<close>: the argument \<^verbatim>\<open>False\<close> (here \<open>None\<close>) is replaced by
  \<^verbatim>\<open>config.yaml['default_throughput']\<close>.
\<close>

definition get_or_default_throughput ::
  "env \<Rightarrow> throughput option \<Rightarrow> state \<Rightarrow> (exn + throughput) \<times> state" where
  "get_or_default_throughput E throughput s =
     (case throughput of
        Some t \<Rightarrow> (Inr t, s)
      | None \<Rightarrow>
          (case get_config E no_kwargs s of
             (Inl e, s') \<Rightarrow> (Inl e, s')
           | (Inr c, s') \<Rightarrow>
               (case default_throughput (yaml c) of
                  None \<Rightarrow> (Inl (KeyError ''default_throughput''), s')
                | Some t \<Rightarrow> (Inr t, s'))))"

text \<open>
  \<^verbatim>\<open>_get_table_init_data\<close>: the keyword arguments of the table handle, evaluated in the
  order of the source (name, connection, throughput, metadata).
\<close>

definition get_table_init_data ::
  "env \<Rightarrow> string \<Rightarrow> connection option \<Rightarrow> throughput option \<Rightarrow> state \<Rightarrow> (exn + table) \<times> state"
  where
  "get_table_init_data E table_name connection throughput s =
     (case get_table_name E table_name s of
        (Inl e, s1) \<Rightarrow> (Inl e, s1)
      | (Inr tn, s1) \<Rightarrow>
          (case (case connection of Some c \<Rightarrow> (Inr c, s1) | None \<Rightarrow> get_connection E s1) of
             (Inl e, s2) \<Rightarrow> (Inl e, s2)
           | (Inr conn, s2) \<Rightarrow>
               (case get_or_default_throughput E throughput s2 of
                  (Inl e, s3) \<Rightarrow> (Inl e, s3)
                | (Inr thr, s3) \<Rightarrow>
                    (case get_table_metadata E table_name s3 of
                       (Inl e, s4) \<Rightarrow> (Inl e, s4)
                     | (Inr (schema, gis, lis), s4) \<Rightarrow>
                         (Inr \<lparr>t_table_name = tn, t_connection = conn, t_throughput = thr,
                                t_schema = schema, t_global_indexes = gis, t_indexes = lis\<rparr>,
                          s4)))))"

section \<open>Calls on the remote service\<close>

text \<open>A call is made (and recorded) whether the service answers or raises.\<close>

definition service_call :: "env \<Rightarrow> call \<Rightarrow> state \<Rightarrow> (exn + unit) \<times> state" where
  "service_call E c s =
     (case respond E (trace s) c of
        Some e \<Rightarrow> (Inl e, s\<lparr>trace := trace s @ [c]\<rparr>)
      | None \<Rightarrow> (Inr (), s\<lparr>trace := trace s @ [c]\<rparr>))"

definition table_describe :: "env \<Rightarrow> string \<Rightarrow> state \<Rightarrow> (exn + table_metadata) \<times> state" where
  "table_describe E tn s = (describe E (trace s) tn, s\<lparr>trace := trace s @ [Describe tn]\<rparr>)"

section \<open>create\_table\<close>

text \<open>
  The \<^verbatim>\<open>try\<close> covers the initialisation data and \<^verbatim>\<open>Table.create\<close>. The handler turns a
  \<^verbatim>\<open>JSONResponseError\<close> with status 400 and code \<^verbatim>\<open>ResourceInUseException\<close> into
  \<^verbatim>\<open>TableAlreadyExistsException(body=e.body)\<close> and re-raises every other
  \<^verbatim>\<open>JSONResponseError\<close>; other exceptions pass through.
\<close>

definition create_table ::
  "env \<Rightarrow> string \<Rightarrow> connection option \<Rightarrow> throughput option \<Rightarrow> state \<Rightarrow> (exn + table) \<times> state"
  where
  "create_table E table_name connection throughput s =
     (case (case get_table_init_data E table_name connection throughput s of
              (Inl e, s1) \<Rightarrow> (Inl e, s1)
            | (Inr init_data, s1) \<Rightarrow>
                (case service_call E (Create init_data) s1 of
                   (Inl e, s2) \<Rightarrow> (Inl e, s2)
                 | (Inr u, s2) \<Rightarrow> (Inr init_data, s2))) of
        (Inl (JSONResponseError status error_code body), s') \<Rightarrow>
          (if status = 400 \<and> error_code = ''ResourceInUseException''
           then (Inl (TableAlreadyExistsException body), s')
           else (Inl (JSONResponseError status error_code body), s'))
      | r \<Rightarrow> r)"

section \<open>update\_table\<close>

text \<open>
  \<^verbatim>\<open>_validate_schema\<close>. \<^verbatim>\<open>sorted(xs, key=...)\<close> is a stable sort by the
  \<^verbatim>\<open>AttributeName\<close>, as \<^const>\<open>sort_key\<close> is.
\<close>

definition validate_schema :: "key list \<Rightarrow> table_metadata \<Rightarrow> exn + unit" where
  "validate_schema schema table_metadata =
     (let upstream_schema = KeySchema table_metadata;
          upstream_schema_attributes = map fst upstream_schema;
          upstream_attributes =
            filter (\<lambda>item. fst item \<in> set upstream_schema_attributes)
              (AttributeDefinitions table_metadata);
          local_schema = map key_schema schema;
          local_schema_attributes = map fst local_schema;
          local_attributes =
            map key_definition
              (filter (\<lambda>item. fst (key_definition item) \<in> set local_schema_attributes) schema)
      in if sort_key fst upstream_schema \<noteq> sort_key fst local_schema then
           Inl (UpdateTableException ''Mismatched schema'')
         else if sort_key fst upstream_attributes \<noteq> sort_key fst local_attributes then
           Inl (UpdateTableException ''Mismatched attributes'')
         else Inr ())"

text \<open>
  \<^verbatim>\<open>dict(pairs)\<close>: one entry per key, the last value given for a key wins.
\<close>

definition py_dict :: "(string \<times> 'v) list \<Rightarrow> (string \<times> 'v) list" where
  "py_dict kvs = foldl (\<lambda>d (k, v). AList.update k v d) [] kvs"

text \<open>
  \<^verbatim>\<open>d.keys()\<close> and \<^verbatim>\<open>d.items()\<close>: the entries in the order the interpreter iterates
  a dictionary with these keys.
\<close>

definition dict_keys :: "env \<Rightarrow> (string \<times> 'v) list \<Rightarrow> string list" where
  "dict_keys E d = filter (\<lambda>k. k \<in> set (map fst d)) (key_order E (map fst d))"

definition dict_items :: "env \<Rightarrow> (string \<times> 'v) list \<Rightarrow> (string \<times> 'v) list" where
  "dict_items E d = List.map_filter (\<lambda>k. map_option (Pair k) (map_of d k)) (key_order E (map fst d))"

text \<open>
  The loop over the local global indexes: create or update throughput. Reading
  \<^verbatim>\<open>index.throughput\<close> of an object without that attribute raises before any call.
\<close>

fun reconcile_local ::
  "env \<Rightarrow> string \<Rightarrow> (string \<times> upstream_index) list \<Rightarrow> (string \<times> index) list \<Rightarrow> state
     \<Rightarrow> (exn + unit) \<times> state" where
  "reconcile_local E tn upstream [] s = (Inr (), s)"
| "reconcile_local E tn upstream ((name, ix) # rest) s =
     (case (if name \<notin> set (map fst upstream) then service_call E (CreateGSI tn ix) s
            else (case ix_throughput ix of
                    None \<Rightarrow> (Inl (AttributeError ''throughput''), s)
                  | Some t \<Rightarrow> service_call E (UpdateGSI tn name t) s)) of
        (Inl e, s') \<Rightarrow> (Inl e, s')
      | (Inr u, s') \<Rightarrow> reconcile_local E tn upstream rest s')"

text \<open>The loop over the upstream index names: delete what is not declared locally.\<close>

fun reconcile_upstream ::
  "env \<Rightarrow> string \<Rightarrow> (string \<times> index) list \<Rightarrow> string list \<Rightarrow> state \<Rightarrow> (exn + unit) \<times> state"
  where
  "reconcile_upstream E tn local [] s = (Inr (), s)"
| "reconcile_upstream E tn local (name # rest) s =
     (if name \<notin> set (map fst local) then
        (case service_call E (DeleteGSI tn name) s of
           (Inl e, s') \<Rightarrow> (Inl e, s')
         | (Inr u, s') \<Rightarrow> reconcile_upstream E tn local rest s')
      else reconcile_upstream E tn local rest s)"

text \<open>\<^verbatim>\<open>table_metadata['Table'].get('GlobalSecondaryIndexes', [])\<close>.\<close>

definition upstream_indexes :: "table_metadata \<Rightarrow> upstream_index list" where
  "upstream_indexes md = (case GlobalSecondaryIndexes md of None \<Rightarrow> [] | Some l \<Rightarrow> l)"

text \<open>
  The body of the \<^verbatim>\<open>try\<close> in \<^verbatim>\<open>update_table\<close>: describe, validate, update the primary
  throughput with the \<^verbatim>\<open>throughput\<close> argument as received, then the two loops.
\<close>

definition update_table_try ::
  "env \<Rightarrow> table \<Rightarrow> (string \<times> index) list \<Rightarrow> throughput option \<Rightarrow> state
     \<Rightarrow> (exn + unit) \<times> state" where
  "update_table_try E db_table local_global_indexes_by_name throughput s =
     (case table_describe E (t_table_name db_table) s of
        (Inl e, s1) \<Rightarrow> (Inl e, s1)
      | (Inr table_metadata, s1) \<Rightarrow>
          (case validate_schema (t_schema db_table) table_metadata of
             Inl e \<Rightarrow> (Inl e, s1)
           | Inr u \<Rightarrow>
               (case service_call E (Update (t_table_name db_table) throughput) s1 of
                  (Inl e, s2) \<Rightarrow> (Inl e, s2)
                | (Inr u, s2) \<Rightarrow>
                    (let upstream_global_indexes_by_name =
                           py_dict (map (\<lambda>ix. (IndexName ix, ix))
                             (upstream_indexes table_metadata))
                     in (case reconcile_local E (t_table_name db_table)
                                 upstream_global_indexes_by_name
                                 (dict_items E local_global_indexes_by_name) s2 of
                           (Inl e, s3) \<Rightarrow> (Inl e, s3)
                         | (Inr u, s3) \<Rightarrow>
                             reconcile_upstream E (t_table_name db_table)
                               local_global_indexes_by_name
                               (dict_keys E upstream_global_indexes_by_name) s3)))))"

text \<open>
  \<^verbatim>\<open>update_table\<close>. The handle is built outside the \<^verbatim>\<open>try\<close>. The handler raises
  \<^verbatim>\<open>UnknownTableException\<close> for a \<^verbatim>\<open>JSONResponseError\<close> with status 400 and code
  \<^verbatim>\<open>ResourceNotFoundException\<close>; for any other \<^verbatim>\<open>JSONResponseError\<close> it does nothing,
  and control reaches \<^verbatim>\<open>return db_table\<close>.
\<close>

definition update_table ::
  "env \<Rightarrow> string \<Rightarrow> connection option \<Rightarrow> throughput option \<Rightarrow> state \<Rightarrow> (exn + table) \<times> state"
  where
  "update_table E table_name connection throughput s =
     (case get_table_init_data E table_name connection throughput s of
        (Inl e, s0) \<Rightarrow> (Inl e, s0)
      | (Inr db_table, s0) \<Rightarrow>
          (let local_global_indexes_by_name =
                 py_dict (map (\<lambda>ix. (ix_name ix, ix)) (t_global_indexes db_table))
           in (case update_table_try E db_table local_global_indexes_by_name throughput s0 of
                 (Inl (JSONResponseError status error_code body), s1) \<Rightarrow>
                   (if status = 400 \<and> error_code = ''ResourceNotFoundException''
                    then (Inl (UnknownTableException (''Unknown table: '' @ table_name)), s1)
                    else (Inr db_table, s1))
               | (Inl e, s1) \<Rightarrow> (Inl e, s1)
               | (Inr u, s1) \<Rightarrow> (Inr db_table, s1))))"

section \<open>A concrete deployment\<close>

text \<open>
  boto's tables, as far as the examples need them: the key classes \<^verbatim>\<open>HashKey\<close> and
  \<^verbatim>\<open>RangeKey\<close>, the index classes \<^verbatim>\<open>GlobalAllIndex\<close> (whose throughput defaults to 5/5, as
  the schema builder passes none) and \<^verbatim>\<open>AllIndex\<close>, and the type constants.
\<close>

definition boto_fields_key :: "string \<Rightarrow> (string \<Rightarrow> string \<Rightarrow> key) option" where
  "boto_fields_key t =
     (if t = ''HashKey'' then
        Some (\<lambda>n d. \<lparr>key_name = n, key_attr_type = ''HASH'', key_data_type = d\<rparr>)
      else if t = ''RangeKey'' then
        Some (\<lambda>n d. \<lparr>key_name = n, key_attr_type = ''RANGE'', key_data_type = d\<rparr>)
      else None)"

definition boto_fields_index :: "string \<Rightarrow> (string \<Rightarrow> key list \<Rightarrow> index) option" where
  "boto_fields_index t =
     (if t = ''GlobalAllIndex'' then
        Some (\<lambda>n ps. \<lparr>ix_name = n, ix_class = ''GlobalAllIndex'', ix_parts = ps,
                       ix_throughput = Some \<lparr>read_capacity = 5, write_capacity = 5\<rparr>\<rparr>)
      else if t = ''AllIndex'' then
        Some (\<lambda>n ps. \<lparr>ix_name = n, ix_class = ''AllIndex'', ix_parts = ps, ix_throughput = None\<rparr>)
      else None)"

definition boto_types :: "string \<Rightarrow> string option" where
  "boto_types t =
     (if t = ''STRING'' then Some ''S''
      else if t = ''NUMBER'' then Some ''N''
      else if t = ''BINARY'' then Some ''B''
      else None)"

text \<open>
  A configuration file declaring one table \<^verbatim>\<open>users\<close> with hash key \<^verbatim>\<open>id\<close> (a string) and
  the global indexes \<^verbatim>\<open>A\<close> and \<^verbatim>\<open>B\<close>, and one local index \<^verbatim>\<open>L\<close>.
\<close>

definition example_yaml :: yaml_config where
  "example_yaml =
     \<lparr>schemas = Some [(''users'',
          [\<lparr>kd_name = ''id'', kd_type = ''HashKey'', kd_data_type = ''STRING''\<rparr>])],
      global_indexes = Some [(''users'',
          [\<lparr>id_name = ''A'', id_type = ''GlobalAllIndex'', id_parts = Some
              [\<lparr>kd_name = ''email'', kd_type = ''HashKey'', kd_data_type = ''STRING''\<rparr>]\<rparr>,
           \<lparr>id_name = ''B'', id_type = ''GlobalAllIndex'', id_parts = Some
              [\<lparr>kd_name = ''age'', kd_type = ''HashKey'', kd_data_type = ''NUMBER''\<rparr>]\<rparr>])],
      indexes = Some [(''users'',
          [\<lparr>id_name = ''L'', id_type = ''AllIndex'', id_parts = None\<rparr>])],
      columns = None,
      default_throughput = Some \<lparr>read_capacity = 10, write_capacity = 10\<rparr>\<rparr>"

text \<open>
  The upstream description of the table: the same primary key, and the global indexes
  \<^verbatim>\<open>B\<close> and \<^verbatim>\<open>C\<close>.
\<close>

definition example_metadata :: table_metadata where
  "example_metadata =
     \<lparr>KeySchema = [(''id'', ''HASH'')],
      AttributeDefinitions = [(''age'', ''N''), (''id'', ''S'')],
      GlobalSecondaryIndexes = Some
        [\<lparr>IndexName = ''B'', ProvisionedThroughput = \<lparr>read_capacity = 1, write_capacity = 1\<rparr>\<rparr>,
         \<lparr>IndexName = ''C'', ProvisionedThroughput = \<lparr>read_capacity = 2, write_capacity = 2\<rparr>\<rparr>]\<rparr>"

text \<open>
  An environment with the three required variables set, a service that accepts every
  call, and dictionaries iterated in reverse order of insertion.
\<close>

definition example_env :: env where
  "example_env =
     \<lparr>environ = (\<lambda>n. if n = ''CC_DYNAMODB_NAMESPACE'' then Some ''dev_''
                      else if n = ''CC_DYNAMODB_ACCESS_KEY_ID'' then Some ''AK''
                      else if n = ''CC_DYNAMODB_SECRET_ACCESS_KEY'' then Some ''SK''
                      else None),
      CONFIG_PATH = ''dynamodb.yml'',
      load_yaml = (\<lambda>p. if p = ''dynamodb.yml'' then Inr example_yaml else Inl (IOError p)),
      fields_key = boto_fields_key,
      fields_index = boto_fields_index,
      types = boto_types,
      describe = (\<lambda>h tn. Inr example_metadata),
      respond = (\<lambda>h c. None),
      key_order = rev\<rparr>"

definition example_config :: config where
  "example_config =
     \<lparr>yaml = example_yaml, namespace = PyStr ''dev_'', aws_access_key_id = PyStr ''AK'',
      aws_secret_access_key = PyStr ''SK'', host = PyNone, port = PyNone, is_secure = PyNone\<rparr>"

definition loaded_state :: state where
  "loaded_state = \<lparr>cached_config = Some example_config, trace = []\<rparr>"

definition initial_state :: state where
  "initial_state = \<lparr>cached_config = None, trace = []\<rparr>"

text \<open>The handle that the schema builder produces for \<^verbatim>\<open>users\<close> in this deployment.\<close>

definition example_table :: table where
  "example_table =
     \<lparr>t_table_name = ''dev_users'',
      t_connection = RegionConnection ''us-west-2'' (PyStr ''AK'') (PyStr ''SK''),
      t_throughput = \<lparr>read_capacity = 10, write_capacity = 10\<rparr>,
      t_schema = [\<lparr>key_name = ''id'', key_attr_type = ''HASH'', key_data_type = ''S''\<rparr>],
      t_global_indexes =
        [\<lparr>ix_name = ''A'', ix_class = ''GlobalAllIndex'',
          ix_parts = [\<lparr>key_name = ''email'', key_attr_type = ''HASH'', key_data_type = ''S''\<rparr>],
          ix_throughput = Some \<lparr>read_capacity = 5, write_capacity = 5\<rparr>\<rparr>,
         \<lparr>ix_name = ''B'', ix_class = ''GlobalAllIndex'',
          ix_parts = [\<lparr>key_name = ''age'', key_attr_type = ''HASH'', key_data_type = ''N''\<rparr>],
          ix_throughput = Some \<lparr>read_capacity = 5, write_capacity = 5\<rparr>\<rparr>],
      t_indexes =
        [\<lparr>ix_name = ''L'', ix_class = ''AllIndex'', ix_parts = [], ix_throughput = None\<rparr>]\<rparr>"

text \<open>An upstream description whose attribute \<^verbatim>\<open>id\<close> is a number.\<close>

definition number_id_metadata :: table_metadata where
  "number_id_metadata = example_metadata\<lparr>AttributeDefinitions := [(''id'', ''N'')]\<rparr>"

text \<open>
  A service that answers the primary throughput update with an internal error, and one
  that answers an index creation with a limit error; both are \<^verbatim>\<open>JSONResponseError\<close>s
  other than 400 with \<^verbatim>\<open>ResourceNotFoundException\<close>.
\<close>

definition failing_update_env :: env where
  "failing_update_env =
     example_env\<lparr>respond :=
       (\<lambda>h c. case c of
                 Update tn t \<Rightarrow> Some (JSONResponseError 500 ''InternalServerError'' ''boom'')
               | _ \<Rightarrow> None)\<rparr>"

definition failing_create_index_env :: env where
  "failing_create_index_env =
     example_env\<lparr>respond :=
       (\<lambda>h c. case c of
                 CreateGSI tn ix \<Rightarrow> Some (JSONResponseError 400 ''LimitExceededException'' ''busy'')
               | _ \<Rightarrow> None)\<rparr>"

text \<open>An environment that sets all six variables, and keyword arguments that are all falsy.\<close>

definition full_environ :: "string \<Rightarrow> string option" where
  "full_environ n =
     (if n = ''CC_DYNAMODB_NAMESPACE'' then Some ''dev_''
      else if n = ''CC_DYNAMODB_ACCESS_KEY_ID'' then Some ''AK''
      else if n = ''CC_DYNAMODB_SECRET_ACCESS_KEY'' then Some ''SK''
      else if n = ''CC_DYNAMODB_HOST'' then Some ''localhost''
      else if n = ''CC_DYNAMODB_PORT'' then Some ''8000''
      else if n = ''CC_DYNAMODB_IS_SECURE'' then Some ''1''
      else None)"

definition falsy_kwargs :: kwargs where
  "falsy_kwargs =
     \<lparr>kw_table_config = None, kw_namespace = PyStr [], kw_aws_access_key_id = PyStr [],
      kw_aws_secret_access_key = PyNone, kw_host = PyBool False, kw_port = PyInt 0,
      kw_is_secure = PyStr []\<rparr>"

section \<open>The configuration as objects in a store\<close>

text \<open>
  To speak about what a caller can do with the object that \<^verbatim>\<open>get_config\<close> returns,
  the \<^verbatim>\<open>Bunch\<close> and the parsed document are objects in a store. An address is an
  index into the list of allocated objects; a \<^verbatim>\<open>Bunch\<close> holds its six scalar
  attributes and the address of its document. The document with the dictionaries and
  lists nested in it is one object: \<^verbatim>\<open>toDict\<close> and \<^verbatim>\<open>copy.deepcopy\<close> copy every
  container below the one they are given, so a copy shares no part with its original.
\<close>

type_synonym addr = nat

datatype obj = Bunch "addr bunch" | Doc yaml_config

text \<open>The store and the module's global \<^verbatim>\<open>_cached_config\<close>, now a reference.\<close>

record hstate =
  heap :: "obj list"
  cached_ref :: "addr option"

definition lookup :: "obj list \<Rightarrow> addr \<Rightarrow> obj option" where
  "lookup h a = (if a < length h then Some (h ! a) else None)"

definition alloc :: "obj \<Rightarrow> obj list \<Rightarrow> addr \<times> obj list" where
  "alloc ob h = (length h, h @ [ob])"

definition with_yaml :: "'a \<Rightarrow> 'b bunch \<Rightarrow> 'a bunch" where
  "with_yaml y b =
     \<lparr>yaml = y, namespace = namespace b, aws_access_key_id = aws_access_key_id b,
      aws_secret_access_key = aws_secret_access_key b, host = host b, port = port b,
      is_secure = is_secure b\<rparr>"

text \<open>The configuration value that a reference to a \<^verbatim>\<open>Bunch\<close> stands for.\<close>

definition read_config :: "obj list \<Rightarrow> addr \<Rightarrow> config option" where
  "read_config h a =
     (case lookup h a of
        Some (Bunch b) \<Rightarrow>
          (case lookup h (yaml b) of
             Some (Doc y) \<Rightarrow> Some (with_yaml y b)
           | _ \<Rightarrow> None)
      | _ \<Rightarrow> None)"

text \<open>
  \<^verbatim>\<open>set_config\<close> on the store: \<^verbatim>\<open>yaml.load\<close> allocates the document, \<^verbatim>\<open>Bunch({...})\<close>
  allocates the \<^verbatim>\<open>Bunch\<close>, the global is set to it, and the port is converted in place.
\<close>

definition set_config_h :: "env \<Rightarrow> kwargs \<Rightarrow> hstate \<Rightarrow> (exn + unit) \<times> hstate" where
  "set_config_h E kw hs =
     (case load_yaml E (config_path E kw) of
        Inl e \<Rightarrow> (Inl e, hs)
      | Inr yaml_config \<Rightarrow>
          (case alloc (Doc yaml_config) (heap hs) of
             (ay, h1) \<Rightarrow>
               (let b = resolve_fields E kw ay in
                case alloc (Bunch b) h1 of
                  (ab, h2) \<Rightarrow>
                    (let hs1 = hs\<lparr>heap := h2, cached_ref := Some ab\<rparr> in
                     case check_fields b of
                       Inl e \<Rightarrow> (Inl e, hs1)
                     | Inr b' \<Rightarrow> (Inr (), hs1\<lparr>heap := h2[ab := Bunch b']\<rparr>)))))"

text \<open>
  \<^verbatim>\<open>Bunch(copy.deepcopy(x.toDict()))\<close>: a new document object holding a copy of the
  document, and a new \<^verbatim>\<open>Bunch\<close> that refers to it.
\<close>

definition copy_config :: "obj list \<Rightarrow> config \<Rightarrow> addr \<times> obj list" where
  "copy_config h c =
     (case alloc (Doc (yaml c)) h of
        (ay, h1) \<Rightarrow> alloc (Bunch (with_yaml ay c)) h1)"

text \<open>
  \<^verbatim>\<open>get_config\<close> on the store; it returns a reference. A global that refers to no
  \<^verbatim>\<open>Bunch\<close> does not arise (\<^verbatim>\<open>set_config\<close> is the only writer); the model answers it
  with an error.
\<close>

definition return_copy :: "hstate \<Rightarrow> (exn + addr) \<times> hstate" where
  "return_copy hs =
     (case cached_ref hs of
        None \<Rightarrow> (Inl (AttributeError ''toDict''), hs)
      | Some a \<Rightarrow>
          (case read_config (heap hs) a of
             None \<Rightarrow> (Inl (OtherError ''dangling reference''), hs)
           | Some c \<Rightarrow>
               (case copy_config (heap hs) c of
                  (r, h') \<Rightarrow> (Inr r, hs\<lparr>heap := h'\<rparr>))))"

definition get_config_h :: "env \<Rightarrow> kwargs \<Rightarrow> hstate \<Rightarrow> (exn + addr) \<times> hstate" where
  "get_config_h E kw hs =
     (case cached_ref hs of
        Some a \<Rightarrow> return_copy hs
      | None \<Rightarrow>
          (case set_config_h E kw hs of
             (Inl e, hs') \<Rightarrow> (Inl e, hs')
           | (Inr u, hs') \<Rightarrow> return_copy hs'))"

text \<open>
  The store whose cache \<^verbatim>\<open>get_config\<close> copies: the store it is called in when the global
  is set, the store that \<^verbatim>\<open>set_config(**kwargs)\<close> leaves otherwise.
\<close>

definition store_after_load :: "env \<Rightarrow> kwargs \<Rightarrow> hstate \<Rightarrow> hstate" where
  "store_after_load E kw hs =
     (case cached_ref hs of Some a \<Rightarrow> hs | None \<Rightarrow> snd (set_config_h E kw hs))"

text \<open>
  What a caller can do to the object it received: assign a scalar attribute, mutate the
  document it reaches through the object (in place, in any way), or bind the \<^verbatim>\<open>yaml\<close>
  attribute to a new document.
\<close>

datatype field = Namespace | AccessKeyId | SecretAccessKey | Host | Port | IsSecure

fun set_field :: "field \<Rightarrow> pyval \<Rightarrow> 'y bunch \<Rightarrow> 'y bunch" where
  "set_field Namespace v b = b\<lparr>namespace := v\<rparr>"
| "set_field AccessKeyId v b = b\<lparr>aws_access_key_id := v\<rparr>"
| "set_field SecretAccessKey v b = b\<lparr>aws_secret_access_key := v\<rparr>"
| "set_field Host v b = b\<lparr>host := v\<rparr>"
| "set_field Port v b = b\<lparr>port := v\<rparr>"
| "set_field IsSecure v b = b\<lparr>is_secure := v\<rparr>"

datatype mutation =
    SetAttr field pyval
  | MutateYaml "yaml_config \<Rightarrow> yaml_config"
  | RebindYaml yaml_config

fun apply_mutation :: "addr \<Rightarrow> obj list \<Rightarrow> mutation \<Rightarrow> obj list" where
  "apply_mutation r h (SetAttr f v) =
     (case lookup h r of
        Some (Bunch b) \<Rightarrow> h[r := Bunch (set_field f v b)]
      | _ \<Rightarrow> h)"
| "apply_mutation r h (MutateYaml g) =
     (case lookup h r of
        Some (Bunch b) \<Rightarrow>
          (case lookup h (yaml b) of
             Some (Doc y) \<Rightarrow> h[yaml b := Doc (g y)]
           | _ \<Rightarrow> h)
      | _ \<Rightarrow> h)"
| "apply_mutation r h (RebindYaml y) =
     (case lookup h r of
        Some (Bunch b) \<Rightarrow>
          (case alloc (Doc y) h of (ay, h1) \<Rightarrow> h1[r := Bunch (b\<lparr>yaml := ay\<rparr>)])
      | _ \<Rightarrow> h)"

definition mutate :: "addr \<Rightarrow> mutation list \<Rightarrow> hstate \<Rightarrow> hstate" where
  "mutate r ms hs = hs\<lparr>heap := foldl (apply_mutation r) (heap hs) ms\<rparr>"

text \<open>A store in which \<^verbatim>\<open>set_config\<close> has succeeded in the example deployment.\<close>

definition loaded_store :: hstate where
  "loaded_store = snd (set_config_h example_env no_kwargs \<lparr>heap = [], cached_ref = None\<rparr>)"

text \<open>
  The invariant of the caller's mutations: the first \<open>n\<close> objects are as they were, and
  the caller's handle is a \<^verbatim>\<open>Bunch\<close> whose document lies beyond them.
\<close>

definition owned :: "nat \<Rightarrow> obj list \<Rightarrow> addr \<Rightarrow> obj list \<Rightarrow> bool" where
  "owned n h0 r h \<longleftrightarrow>
     take n h = h0 \<and> n \<le> length h \<and> n \<le> r \<and>
     (\<exists>b. lookup h r = Some (Bunch b) \<and> n \<le> yaml b)"

text \<open>
  The state of the value-level model that a store stands for: the cached configuration
  read through the global's reference.
\<close>

definition abs_state :: "call list \<Rightarrow> hstate \<Rightarrow> state" where
  "abs_state t hs =
     \<lparr>cached_config = (case cached_ref hs of None \<Rightarrow> None | Some a \<Rightarrow> read_config (heap hs) a),
      trace = t\<rparr>"

text \<open>Mutations a caller may apply, and the store after one \<^verbatim>\<open>get_config\<close>.\<close>

definition example_mutations :: "mutation list" where
  "example_mutations =
     [SetAttr Namespace (PyStr ''prod_''),
      MutateYaml (\<lambda>y. y\<lparr>schemas := None\<rparr>),
      RebindYaml (example_yaml\<lparr>indexes := None\<rparr>),
      MutateYaml (\<lambda>y. y\<lparr>default_throughput := None\<rparr>),
      SetAttr Port (PyInt 1)]"

definition copied_store :: hstate where
  "copied_store =
     \<lparr>heap = [Doc example_yaml, Bunch (with_yaml 0 example_config),
              Doc example_yaml, Bunch (with_yaml 2 example_config)],
      cached_ref = Some 1\<rparr>"

section \<open>Notions of the specification\<close>

text \<open>
  A field resolves to no value when the keyword argument is absent or falsy and the
  environment variable is unset or empty.
\<close>

definition unresolved :: "pyval \<Rightarrow> string option \<Rightarrow> bool" where
  "unresolved kwv envv = (\<not> truthy kwv \<and> (envv = None \<or> envv = Some []))"

text \<open>
  A port is supplied and malformed when the value that is supplied (the keyword
  argument, or else the non-empty environment variable) is not accepted by \<^verbatim>\<open>int()\<close>.
\<close>

definition malformed_port :: "pyval \<Rightarrow> string option \<Rightarrow> bool" where
  "malformed_port kwv envv =
     (if truthy kwv then isl (py_int kwv)
      else (case envv of None \<Rightarrow> False | Some p \<Rightarrow> p \<noteq> [] \<and> int_of_string p = None))"

text \<open>
  The indexes that the configuration declares for a table, in the local and in the
  global section.
\<close>

definition declared_indexes :: "yaml_config \<Rightarrow> string \<Rightarrow> index_details list" where
  "declared_indexes y table_name =
     concat (map snd (filter (\<lambda>(t, ixs). t = table_name)
       ((case indexes y of None \<Rightarrow> [] | Some d \<Rightarrow> d) @
        (case global_indexes y of None \<Rightarrow> [] | Some d \<Rightarrow> d))))"

text \<open>
  The primary key differs from the upstream description: in the key schema (name and
  key type) sorted by attribute name, or in the attribute definitions (name and data
  type) of the key attributes, sorted likewise.
\<close>

definition schema_differs :: "key list \<Rightarrow> table_metadata \<Rightarrow> bool" where
  "schema_differs schema md =
     (sort_key fst (KeySchema md) \<noteq> sort_key fst (map key_schema schema) \<or>
      sort_key fst (filter (\<lambda>d. fst d \<in> fst ` set (KeySchema md)) (AttributeDefinitions md))
        \<noteq> sort_key fst (map key_definition schema))"


text \<open>The calls that create, update or delete a global secondary index.\<close>

fun index_call :: "call \<Rightarrow> bool" where
  "index_call (CreateGSI tn ix) = True"
| "index_call (UpdateGSI tn n t) = True"
| "index_call (DeleteGSI tn n) = True"
| "index_call c = False"


section \<open>Properties of the configuration store\<close>

lemma get_config_cached: "cached_config s = Some c \<Longrightarrow> get_config E kw s = (Inr c, s)"
  by (simp add: get_config_def)

lemma truthy_py_or_environ:
  "truthy (py_or kwv (environ_get E n)) = (\<not> unresolved kwv (environ E n))"
  by (auto simp: py_or_def environ_get_def unresolved_def split: option.splits)

lemma py_int_truthy_cases:
  "truthy v \<Longrightarrow> (\<exists>n. py_int v = Inr n) \<or> (\<exists>m. py_int v = Inl (ValueError m))"
  by (cases v) (auto split: option.splits)

lemma isl_py_int_py_or:
  "truthy (py_or kwv (environ_get E n)) \<Longrightarrow>
   isl (py_int (py_or kwv (environ_get E n))) = malformed_port kwv (environ E n)"
  by (cases "truthy kwv")
     (auto simp: py_or_def environ_get_def malformed_port_def split: option.splits)

lemma malformed_port_truthy:
  "malformed_port kwv (environ E n) \<Longrightarrow> truthy (py_or kwv (environ_get E n))"
  by (cases "truthy kwv")
     (auto simp: py_or_def environ_get_def malformed_port_def split: option.splits)

text \<open>
  Once the file is read, \<^const>\<open>set_config\<close> raises \<^const>\<open>ConfigurationError\<close> exactly on one
  of its four checks.
\<close>

lemma set_config_loaded:
  assumes "load_yaml E (config_path E kw) = Inr y"
  shows "(\<exists>msg. fst (set_config E kw s) = Inl (ConfigurationError msg)) \<longleftrightarrow>
         \<not> truthy (py_or (kw_namespace kw) (environ_get E ''CC_DYNAMODB_NAMESPACE'')) \<or>
         \<not> truthy (py_or (kw_aws_access_key_id kw) (environ_get E ''CC_DYNAMODB_ACCESS_KEY_ID'')) \<or>
         \<not> truthy (py_or (kw_aws_secret_access_key kw)
                     (environ_get E ''CC_DYNAMODB_SECRET_ACCESS_KEY'')) \<or>
         (truthy (py_or (kw_port kw) (environ_get E ''CC_DYNAMODB_PORT'')) \<and>
          isl (py_int (py_or (kw_port kw) (environ_get E ''CC_DYNAMODB_PORT''))))"
proof (cases "truthy (py_or (kw_port kw) (environ_get E ''CC_DYNAMODB_PORT''))")
  case True
  from py_int_truthy_cases [OF True] True assms show ?thesis
    by (auto simp: set_config_def resolve_fields_def check_fields_def Let_def)
next
  case False
  with assms show ?thesis
    by (auto simp: set_config_def resolve_fields_def check_fields_def Let_def)
qed

text \<open>
  C6. With the configuration file readable, \<^verbatim>\<open>set_config\<close> raises
  \<^verbatim>\<open>ConfigurationError\<close> exactly when the namespace, the access key id or the secret
  access key resolves to no value from the keyword argument and the environment
  variable, or a port is supplied that \<^verbatim>\<open>int()\<close> does not accept. The function makes no
  call on the remote service: the trace of calls is not touched (see
  \<open>set_config_trace\<close>).
\<close>

theorem set_config_error_iff:
  assumes "load_yaml E (config_path E kw) = Inr y"
  shows "(\<exists>msg. fst (set_config E kw s) = Inl (ConfigurationError msg)) \<longleftrightarrow>
         unresolved (kw_namespace kw) (environ E ''CC_DYNAMODB_NAMESPACE'') \<or>
         unresolved (kw_aws_access_key_id kw) (environ E ''CC_DYNAMODB_ACCESS_KEY_ID'') \<or>
         unresolved (kw_aws_secret_access_key kw) (environ E ''CC_DYNAMODB_SECRET_ACCESS_KEY'') \<or>
         malformed_port (kw_port kw) (environ E ''CC_DYNAMODB_PORT'')"
  unfolding set_config_loaded [OF assms] truthy_py_or_environ
  using isl_py_int_py_or [of "kw_port kw" E "''CC_DYNAMODB_PORT''"]
    malformed_port_truthy [of "kw_port kw" E "''CC_DYNAMODB_PORT''"]
  by (auto simp: truthy_py_or_environ)

theorem set_config_error_iff_witness:
  "(\<exists>msg. fst (set_config example_env (no_kwargs\<lparr>kw_port := PyStr ''80a''\<rparr>) initial_state)
            = Inl (ConfigurationError msg))
   \<and> \<not> (\<exists>msg. fst (set_config example_env (no_kwargs\<lparr>kw_port := PyStr '' 8000''\<rparr>) initial_state)
            = Inl (ConfigurationError msg))
   \<and> (\<exists>msg. fst (set_config (example_env\<lparr>environ := (\<lambda>n. None)\<rparr>)
                     (no_kwargs\<lparr>kw_namespace := PyStr ''dev_'', kw_aws_access_key_id := PyStr ''AK''\<rparr>)
                     initial_state) = Inl (ConfigurationError msg))"
  using set_config_error_iff [of example_env "no_kwargs\<lparr>kw_port := PyStr ''80a''\<rparr>" example_yaml
      initial_state]
    set_config_error_iff [of example_env "no_kwargs\<lparr>kw_port := PyStr '' 8000''\<rparr>" example_yaml
      initial_state]
    set_config_error_iff [of "example_env\<lparr>environ := (\<lambda>n. None)\<rparr>"
      "no_kwargs\<lparr>kw_namespace := PyStr ''dev_'', kw_aws_access_key_id := PyStr ''AK''\<rparr>"
      example_yaml initial_state]
  by (simp add: example_env_def no_kwargs_def config_path_def unresolved_def malformed_port_def
      int_of_string_def is_space_def is_digit_def)

lemma set_config_trace: "trace (snd (set_config E kw s)) = trace s"
  by (auto simp: set_config_def Let_def split: sum.splits)

lemma set_config_cached_fields:
  assumes "load_yaml E (config_path E kw) = Inr y"
  shows "\<exists>c. cached_config (snd (set_config E kw s)) = Some c \<and>
           yaml c = y \<and>
           namespace c = py_or (kw_namespace kw) (environ_get E ''CC_DYNAMODB_NAMESPACE'') \<and>
           aws_access_key_id c =
             py_or (kw_aws_access_key_id kw) (environ_get E ''CC_DYNAMODB_ACCESS_KEY_ID'') \<and>
           aws_secret_access_key c =
             py_or (kw_aws_secret_access_key kw) (environ_get E ''CC_DYNAMODB_SECRET_ACCESS_KEY'') \<and>
           host c = py_or (kw_host kw) (environ_get E ''CC_DYNAMODB_HOST'') \<and>
           is_secure c = py_or (kw_is_secure kw) (environ_get E ''CC_DYNAMODB_IS_SECURE'') \<and>
           (if fst (set_config E kw s) = Inr () \<and>
               truthy (py_or (kw_port kw) (environ_get E ''CC_DYNAMODB_PORT''))
            then \<exists>n. py_int (py_or (kw_port kw) (environ_get E ''CC_DYNAMODB_PORT'')) = Inr n \<and>
                     port c = PyInt n
            else port c = py_or (kw_port kw) (environ_get E ''CC_DYNAMODB_PORT''))"
  using assms
  by (auto simp: set_config_def resolve_fields_def check_fields_def Let_def
      split: sum.splits exn.splits)

text \<open>
  C10. With the configuration file readable, every field whose keyword argument is
  falsy (absent, empty, zero or \<^verbatim>\<open>False\<close>) is cached with the value of its environment
  variable (\<^verbatim>\<open>None\<close> when unset). For the port that value is converted by \<^verbatim>\<open>int()\<close> when
  it is truthy and \<^verbatim>\<open>set_config\<close> returns normally.
\<close>

theorem set_config_falsy_override:
  assumes "load_yaml E (config_path E kw) = Inr y"
  shows "\<exists>c. cached_config (snd (set_config E kw s)) = Some c \<and>
           (\<not> truthy (kw_namespace kw) \<longrightarrow>
              namespace c = environ_get E ''CC_DYNAMODB_NAMESPACE'') \<and>
           (\<not> truthy (kw_aws_access_key_id kw) \<longrightarrow>
              aws_access_key_id c = environ_get E ''CC_DYNAMODB_ACCESS_KEY_ID'') \<and>
           (\<not> truthy (kw_aws_secret_access_key kw) \<longrightarrow>
              aws_secret_access_key c = environ_get E ''CC_DYNAMODB_SECRET_ACCESS_KEY'') \<and>
           (\<not> truthy (kw_host kw) \<longrightarrow> host c = environ_get E ''CC_DYNAMODB_HOST'') \<and>
           (\<not> truthy (kw_port kw) \<longrightarrow>
              (if fst (set_config E kw s) = Inr () \<and> truthy (environ_get E ''CC_DYNAMODB_PORT'')
               then \<exists>n. py_int (environ_get E ''CC_DYNAMODB_PORT'') = Inr n \<and> port c = PyInt n
               else port c = environ_get E ''CC_DYNAMODB_PORT'')) \<and>
           (\<not> truthy (kw_is_secure kw) \<longrightarrow>
              is_secure c = environ_get E ''CC_DYNAMODB_IS_SECURE'')"
proof -
  from set_config_cached_fields [OF assms, of s] obtain c where
    c: "cached_config (snd (set_config E kw s)) = Some c"
      "namespace c = py_or (kw_namespace kw) (environ_get E ''CC_DYNAMODB_NAMESPACE'')"
      "aws_access_key_id c =
         py_or (kw_aws_access_key_id kw) (environ_get E ''CC_DYNAMODB_ACCESS_KEY_ID'')"
      "aws_secret_access_key c =
         py_or (kw_aws_secret_access_key kw) (environ_get E ''CC_DYNAMODB_SECRET_ACCESS_KEY'')"
      "host c = py_or (kw_host kw) (environ_get E ''CC_DYNAMODB_HOST'')"
      "is_secure c = py_or (kw_is_secure kw) (environ_get E ''CC_DYNAMODB_IS_SECURE'')"
    and p: "if fst (set_config E kw s) = Inr () \<and>
               truthy (py_or (kw_port kw) (environ_get E ''CC_DYNAMODB_PORT''))
            then \<exists>n. py_int (py_or (kw_port kw) (environ_get E ''CC_DYNAMODB_PORT'')) = Inr n \<and>
                     port c = PyInt n
            else port c = py_or (kw_port kw) (environ_get E ''CC_DYNAMODB_PORT'')"
    by blast
  have "\<not> truthy (kw_port kw) \<longrightarrow>
          (if fst (set_config E kw s) = Inr () \<and> truthy (environ_get E ''CC_DYNAMODB_PORT'')
           then \<exists>n. py_int (environ_get E ''CC_DYNAMODB_PORT'') = Inr n \<and> port c = PyInt n
           else port c = environ_get E ''CC_DYNAMODB_PORT'')"
    using p by (cases "truthy (kw_port kw)") (auto simp: py_or_def split: if_splits)
  with c show ?thesis
    by (intro exI [of _ c]) (simp add: py_or_def)
qed

lemma int_of_string_8000: "int_of_string ''8000'' = Some 8000"
  by (simp add: int_of_string_def is_space_def is_digit_def digits_val_def digit_val_def)

theorem set_config_falsy_override_witness:
  "cached_config (snd (set_config (example_env\<lparr>environ := full_environ\<rparr>) falsy_kwargs initial_state))
   = Some \<lparr>yaml = example_yaml, namespace = PyStr ''dev_'', aws_access_key_id = PyStr ''AK'',
           aws_secret_access_key = PyStr ''SK'', host = PyStr ''localhost'', port = PyInt 8000,
           is_secure = PyStr ''1''\<rparr>"
  using set_config_falsy_override [of "example_env\<lparr>environ := full_environ\<rparr>" falsy_kwargs
      example_yaml initial_state]
  by (simp add: set_config_def resolve_fields_def check_fields_def example_env_def
      falsy_kwargs_def config_path_def full_environ_def environ_get_def py_or_def
      int_of_string_8000)

section \<open>Properties of table names and lookups\<close>

text \<open>
  C7. With a loaded configuration whose namespace is a string, prefixing the namespace
  with \<^verbatim>\<open>get_table_name\<close> and stripping it with \<^verbatim>\<open>get_reverse_table_name\<close> gives the
  table name back, for every table name.
\<close>

theorem table_name_roundtrip:
  assumes "cached_config s = Some c" and "namespace c = PyStr ns"
  shows "get_table_name E table_name s = (Inr (ns @ table_name), s)
         \<and> get_reverse_table_name E (ns @ table_name) s = (Inr table_name, s)"
  using assms by (simp add: get_table_name_def get_reverse_table_name_def get_config_cached)

theorem table_name_roundtrip_witness:
  "get_table_name example_env ''users'' loaded_state = (Inr ''dev_users'', loaded_state)
   \<and> get_reverse_table_name example_env ''dev_users'' loaded_state = (Inr ''users'', loaded_state)"
  using table_name_roundtrip [of loaded_state example_config "''dev_''" example_env "''users''"]
  by (simp add: loaded_state_def example_config_def)

lemma find_index_None:
  "\<forall>ix \<in> set ixs. id_name ix \<noteq> index_name \<Longrightarrow> find_index index_name ixs = None"
  by (induction ixs) auto

lemma scan_indexes_None:
  "\<forall>(t, ixs) \<in> set all_indexes. t = table_name \<longrightarrow> (\<forall>ix \<in> set ixs. id_name ix \<noteq> index_name)
   \<Longrightarrow> scan_indexes table_name index_name all_indexes = None"
  by (induction all_indexes) (auto simp: find_index_None)

text \<open>
  C9. With a loaded configuration that declares no index of the given name for the
  given table, in the local or the global section, \<^verbatim>\<open>get_table_index\<close> returns
  \<^verbatim>\<open>None\<close> and raises nothing; this covers a table the configuration does not know.
\<close>

theorem get_table_index_unknown:
  assumes "cached_config s = Some c"
    and "index_name \<notin> set (map id_name (declared_indexes (yaml c) table_name))"
  shows "get_table_index E table_name index_name s = (Inr None, s)"
proof -
  let ?all = "(case indexes (yaml c) of None \<Rightarrow> [] | Some d \<Rightarrow> d) @
              (case global_indexes (yaml c) of None \<Rightarrow> [] | Some d \<Rightarrow> d)"
  have "\<forall>(t, ixs) \<in> set ?all. t = table_name \<longrightarrow> (\<forall>ix \<in> set ixs. id_name ix \<noteq> index_name)"
    using assms(2) unfolding declared_indexes_def by fastforce
  then have "scan_indexes table_name index_name ?all = None"
    by (rule scan_indexes_None)
  then show ?thesis
    using assms(1) by (simp add: get_table_index_def get_config_cached)
qed

theorem get_table_index_unknown_witness:
  "get_table_index example_env ''users'' ''Z'' loaded_state = (Inr None, loaded_state)
   \<and> get_table_index example_env ''orders'' ''A'' loaded_state = (Inr None, loaded_state)"
  using get_table_index_unknown [of loaded_state example_config "''Z''" "''users''" example_env]
    get_table_index_unknown [of loaded_state example_config "''A''" "''orders''" example_env]
  by (simp add: loaded_state_def example_config_def example_yaml_def declared_indexes_def)

section \<open>Properties of create\_table\<close>

lemma service_call_Some:
  "respond E (trace s) c = Some e \<Longrightarrow> service_call E c s = (Inl e, s\<lparr>trace := trace s @ [c]\<rparr>)"
  by (simp add: service_call_def)


text \<open>In the example deployment the handle is built without touching the state.\<close>

lemma init_data_example:
  "get_table_init_data (example_env\<lparr>describe := d, respond := r, key_order := k\<rparr>)
     ''users'' None None loaded_state = (Inr example_table, loaded_state)"
  by (simp add: get_table_init_data_def get_table_name_def get_connection_def
      get_or_default_throughput_def get_table_metadata_def get_config_def loaded_state_def
      example_config_def example_yaml_def example_env_def build_keys_def build_key_def
      build_secondary_indexes_def build_secondary_index_def section_get_def
      boto_fields_key_def boto_fields_index_def boto_types_def example_table_def)

text \<open>
  C5. When the service's create call raises a \<^verbatim>\<open>JSONResponseError\<close> with status 400 and
  error code \<^verbatim>\<open>ResourceInUseException\<close>, \<^verbatim>\<open>create_table\<close> raises
  \<^verbatim>\<open>TableAlreadyExistsException\<close> carrying the error's body; any other exception of the
  create call reaches the caller as it is.
\<close>

theorem create_table_errors:
  assumes "get_table_init_data E table_name connection throughput s = (Inr init_data, s1)"
    and "respond E (trace s1) (Create init_data) = Some e"
  shows "(e = JSONResponseError 400 ''ResourceInUseException'' body \<longrightarrow>
            create_table E table_name connection throughput s
              = (Inl (TableAlreadyExistsException body), s1\<lparr>trace := trace s1 @ [Create init_data]\<rparr>))
         \<and> ((\<forall>b. e \<noteq> JSONResponseError 400 ''ResourceInUseException'' b) \<longrightarrow>
            create_table E table_name connection throughput s
              = (Inl e, s1\<lparr>trace := trace s1 @ [Create init_data]\<rparr>))"
  using assms
  by (cases e) (auto simp: create_table_def service_call_Some)

theorem create_table_errors_witness:
  "create_table
     (example_env\<lparr>describe := describe example_env,
        respond := (\<lambda>h c. Some (JSONResponseError 400 ''ResourceInUseException'' ''exists'')),
        key_order := rev\<rparr>) ''users'' None None loaded_state
   = (Inl (TableAlreadyExistsException ''exists''), loaded_state\<lparr>trace := [Create example_table]\<rparr>)
   \<and> create_table
     (example_env\<lparr>describe := describe example_env,
        respond := (\<lambda>h c. Some (JSONResponseError 400 ''ValidationException'' ''bad'')),
        key_order := rev\<rparr>) ''users'' None None loaded_state
   = (Inl (JSONResponseError 400 ''ValidationException'' ''bad''),
      loaded_state\<lparr>trace := [Create example_table]\<rparr>)"
  using create_table_errors [OF init_data_example
        [where d = "describe example_env" and k = rev
           and r = "\<lambda>h c. Some (JSONResponseError 400 ''ResourceInUseException'' ''exists'')"],
      where e = "JSONResponseError 400 ''ResourceInUseException'' ''exists''"
        and body = "''exists''"]
    create_table_errors [OF init_data_example
        [where d = "describe example_env" and k = rev
           and r = "\<lambda>h c. Some (JSONResponseError 400 ''ValidationException'' ''bad'')"],
      where e = "JSONResponseError 400 ''ValidationException'' ''bad''" and body = "''bad''"]
  by (simp add: loaded_state_def)

section \<open>Properties of update\_table\<close>

subsection \<open>Dictionaries\<close>








subsection \<open>The trace of calls\<close>

lemma get_config_trace: "trace (snd (get_config E kw s)) = trace s"
  using set_config_trace [of E kw s]
  by (auto simp: get_config_def split: option.splits sum.splits prod.splits)

lemma get_config_trace': "get_config E kw s = (r, s') \<Longrightarrow> trace s' = trace s"
  using get_config_trace [of E kw s] by simp

lemma get_table_name_trace: "get_table_name E table_name s = (r, s') \<Longrightarrow> trace s' = trace s"
  unfolding get_table_name_def
  by (auto split: prod.splits sum.splits pyval.splits dest!: get_config_trace')

lemma get_connection_trace: "get_connection E s = (r, s') \<Longrightarrow> trace s' = trace s"
  unfolding get_connection_def
  by (auto split: prod.splits sum.splits if_splits dest!: get_config_trace')

lemma get_or_default_throughput_trace:
  "get_or_default_throughput E throughput s = (r, s') \<Longrightarrow> trace s' = trace s"
  unfolding get_or_default_throughput_def
  by (auto split: prod.splits sum.splits option.splits dest!: get_config_trace')

lemma get_table_metadata_trace: "get_table_metadata E table_name s = (r, s') \<Longrightarrow> trace s' = trace s"
  unfolding get_table_metadata_def
  by (auto split: prod.splits sum.splits option.splits dest!: get_config_trace')

lemma get_table_init_data_trace:
  assumes "get_table_init_data E table_name connection throughput s = (r, s')"
  shows "trace s' = trace s"
proof -
  obtain r1 s1 where 1: "get_table_name E table_name s = (r1, s1)" by fastforce
  obtain r2 s2 where 2: "get_connection E s1 = (r2, s2)" by fastforce
  have t1: "trace s1 = trace s" using 1 by (rule get_table_name_trace)
  have t2: "trace s2 = trace s" using get_connection_trace [OF 2] t1 by simp
  have t3: "\<And>x y u. get_or_default_throughput E throughput x = (y, u) \<Longrightarrow> trace u = trace x"
    by (rule get_or_default_throughput_trace)
  have t4: "\<And>x y u. get_table_metadata E table_name x = (y, u) \<Longrightarrow> trace u = trace x"
    by (rule get_table_metadata_trace)
  show ?thesis
    using assms 1 2 t1 t2
    unfolding get_table_init_data_def
    by (auto split: prod.splits sum.splits option.splits dest!: t3 t4)
qed

subsection \<open>The two loops\<close>




subsection \<open>Index reconciliation\<close>











subsection \<open>Primary key validation\<close>

lemma local_attributes_all:
  "filter (\<lambda>item. fst (key_definition item) \<in> set (map fst (map key_schema schema))) schema = schema"
  by (intro filter_True) (auto simp: key_definition_def key_schema_def image_iff)

lemma validate_schema_iff:
  "validate_schema schema md = Inr () \<longleftrightarrow> \<not> schema_differs schema md"
  unfolding validate_schema_def Let_def local_attributes_all schema_differs_def
  by simp

lemma validate_schema_differs:
  "schema_differs schema md \<Longrightarrow> \<exists>msg. validate_schema schema md = Inl (UpdateTableException msg)"
  unfolding validate_schema_def Let_def local_attributes_all schema_differs_def
  by auto

text \<open>
  C2. When the handle is built and the table is described, and the local primary key
  differs from the upstream description in the sorted key schema or in the sorted
  attribute definitions of the key attributes, \<^verbatim>\<open>update_table\<close> raises
  \<^verbatim>\<open>UpdateTableException\<close>, and the describe call is the only call it has made: no
  throughput update and no index call.
\<close>

theorem update_table_schema_mismatch:
  assumes init: "get_table_init_data E table_name connection throughput s = (Inr db_table, s0)"
    and desc: "describe E (trace s0) (t_table_name db_table) = Inr md"
    and diff: "schema_differs (t_schema db_table) md"
  shows "\<exists>msg. update_table E table_name connection throughput s
                 = (Inl (UpdateTableException msg),
                    s0\<lparr>trace := trace s @ [Describe (t_table_name db_table)]\<rparr>)"
proof -
  from validate_schema_differs [OF diff] obtain msg where
    v: "validate_schema (t_schema db_table) md = Inl (UpdateTableException msg)" by blast
  have tr: "trace s0 = trace s"
    using init by (rule get_table_init_data_trace)
  have "update_table_try E db_table
          (py_dict (map (\<lambda>ix. (ix_name ix, ix)) (t_global_indexes db_table))) throughput s0
        = (Inl (UpdateTableException msg), s0\<lparr>trace := trace s @ [Describe (t_table_name db_table)]\<rparr>)"
    using desc v by (simp add: update_table_try_def table_describe_def tr)
  then have "update_table E table_name connection throughput s
             = (Inl (UpdateTableException msg),
                s0\<lparr>trace := trace s @ [Describe (t_table_name db_table)]\<rparr>)"
    by (simp add: update_table_def init Let_def)
  then show ?thesis by blast
qed

theorem update_table_schema_mismatch_witness:
  "\<exists>msg. update_table
            (example_env\<lparr>describe := (\<lambda>h tn. Inr number_id_metadata), respond := (\<lambda>h c. None),
               key_order := rev\<rparr>) ''users'' None None loaded_state
          = (Inl (UpdateTableException msg), loaded_state\<lparr>trace := [Describe ''dev_users'']\<rparr>)"
proof -
  have diff: "schema_differs (t_schema example_table) number_id_metadata"
    by (simp add: schema_differs_def number_id_metadata_def example_metadata_def example_table_def
        key_schema_def key_definition_def)
  from update_table_schema_mismatch [OF init_data_example
      [where d = "\<lambda>h tn. Inr number_id_metadata" and r = "\<lambda>h c. None" and k = rev] _ diff]
  show ?thesis
    by (simp add: example_table_def loaded_state_def)
qed


subsection \<open>Errors of the service\<close>

lemma init_data_example_env:
  "fields_key E = boto_fields_key \<Longrightarrow> fields_index E = boto_fields_index \<Longrightarrow> types E = boto_types
   \<Longrightarrow> get_table_init_data E ''users'' None throughput loaded_state
       = (Inr (example_table\<lparr>t_throughput :=
                 (case throughput of None \<Rightarrow> \<lparr>read_capacity = 10, write_capacity = 10\<rparr> | Some t \<Rightarrow> t)\<rparr>),
          loaded_state)"
  by (cases throughput)
     (simp_all add: get_table_init_data_def get_table_name_def get_connection_def
      get_or_default_throughput_def get_table_metadata_def get_config_def loaded_state_def
      example_config_def example_yaml_def build_keys_def build_key_def
      build_secondary_indexes_def build_secondary_index_def section_get_def
      boto_fields_key_def boto_fields_index_def boto_types_def example_table_def)

lemmas update_table_eval =
  update_table_def update_table_try_def table_describe_def service_call_def Let_def
  py_dict_def dict_items_def dict_keys_def List.map_filter_simps validate_schema_def
  upstream_indexes_def
  key_schema_def key_definition_def example_table_def example_metadata_def loaded_state_def

lemma failing_update_env_simps:
  "respond failing_update_env h c =
     (case c of Update tn t \<Rightarrow> Some (JSONResponseError 500 ''InternalServerError'' ''boom'')
              | _ \<Rightarrow> None)"
  "describe failing_update_env h tn = Inr example_metadata"
  "key_order failing_update_env = rev"
  "fields_key failing_update_env = boto_fields_key"
  "fields_index failing_update_env = boto_fields_index"
  "types failing_update_env = boto_types"
  by (simp_all add: failing_update_env_def example_env_def)

lemma failing_create_index_env_simps:
  "respond failing_create_index_env h c =
     (case c of CreateGSI tn ix \<Rightarrow> Some (JSONResponseError 400 ''LimitExceededException'' ''busy'')
              | _ \<Rightarrow> None)"
  "describe failing_create_index_env h tn = Inr example_metadata"
  "key_order failing_create_index_env = rev"
  "fields_key failing_create_index_env = boto_fields_key"
  "fields_index failing_create_index_env = boto_fields_index"
  "types failing_create_index_env = boto_types"
  by (simp_all add: failing_create_index_env_def example_env_def)

text \<open>
  C1. A \<^verbatim>\<open>JSONResponseError\<close> that is not 400 with \<^verbatim>\<open>ResourceNotFoundException\<close> does
  not reach the caller of \<^verbatim>\<open>update_table\<close>: when the primary throughput update raises
  status 500, and when an index creation raises a 400 with another code, the function
  returns the handle normally, and the calls that would have followed are not made.
\<close>

theorem update_table_swallows_service_error:
  "update_table failing_update_env ''users'' None None loaded_state
   = (Inr example_table,
      loaded_state\<lparr>trace := [Describe ''dev_users'', Update ''dev_users'' None]\<rparr>)
   \<and> update_table failing_create_index_env ''users'' None None loaded_state
   = (Inr example_table,
      loaded_state\<lparr>trace :=
        [Describe ''dev_users'', Update ''dev_users'' None,
         UpdateGSI ''dev_users'' ''B'' \<lparr>read_capacity = 5, write_capacity = 5\<rparr>,
         CreateGSI ''dev_users'' (hd (t_global_indexes example_table))]\<rparr>)"
proof -
  have 1: "get_table_init_data failing_update_env ''users'' None None loaded_state
           = (Inr example_table, loaded_state)"
    using init_data_example_env [of failing_update_env None]
    by (simp add: failing_update_env_simps example_table_def)
  have 2: "get_table_init_data failing_create_index_env ''users'' None None loaded_state
           = (Inr example_table, loaded_state)"
    using init_data_example_env [of failing_create_index_env None]
    by (simp add: failing_create_index_env_simps example_table_def)
  have a: "update_table failing_update_env ''users'' None None loaded_state
   = (Inr example_table,
      loaded_state\<lparr>trace := [Describe ''dev_users'', Update ''dev_users'' None]\<rparr>)"
    unfolding update_table_def 1
    by (simp add: update_table_eval failing_update_env_simps)
  have b: "update_table failing_create_index_env ''users'' None None loaded_state
   = (Inr example_table,
      loaded_state\<lparr>trace :=
        [Describe ''dev_users'', Update ''dev_users'' None,
         UpdateGSI ''dev_users'' ''B'' \<lparr>read_capacity = 5, write_capacity = 5\<rparr>,
         CreateGSI ''dev_users'' (hd (t_global_indexes example_table))]\<rparr>)"
    unfolding update_table_def 2
    by (simp add: update_table_eval failing_create_index_env_simps)
  from a b show ?thesis by simp
qed

subsection \<open>The primary throughput update\<close>

lemma service_call_trace: "trace (snd (service_call E c s)) = trace s @ [c]"
  by (simp add: service_call_def split: option.splits)

lemma reconcile_local_trace:
  "\<exists>ops. trace (snd (reconcile_local E tn upstream items s)) = trace s @ ops \<and>
         list_all index_call ops"
proof (induction items arbitrary: s)
  case Nil
  then show ?case by simp
next
  case (Cons p items)
  obtain name ix where p: "p = (name, ix)" by (cases p)
  show ?case
  proof (cases "name \<notin> set (map fst upstream)")
    case True
    let ?c = "CreateGSI tn ix"
    obtain r s' where sc: "service_call E ?c s = (r, s')" by fastforce
    with service_call_trace [of E ?c s] have t: "trace s' = trace s @ [?c]" by simp
    show ?thesis
    proof (cases r)
      case (Inl e)
      with sc True p t show ?thesis
        by (auto intro!: exI [of _ "[?c]"])
    next
      case (Inr u)
      from Cons.IH [of s'] obtain ops where
        "trace (snd (reconcile_local E tn upstream items s')) = trace s' @ ops"
        "list_all index_call ops" by blast
      with sc True p t Inr show ?thesis
        by (auto intro!: exI [of _ "?c # ops"])
    qed
  next
    case False
    show ?thesis
    proof (cases "ix_throughput ix")
      case None
      with False p show ?thesis by (auto intro!: exI [of _ "[]"])
    next
      case (Some thr)
      let ?c = "UpdateGSI tn name thr"
      obtain r s' where sc: "service_call E ?c s = (r, s')" by fastforce
      with service_call_trace [of E ?c s] have t: "trace s' = trace s @ [?c]" by simp
      show ?thesis
      proof (cases r)
        case (Inl e)
        with sc False Some p t show ?thesis
          by (auto intro!: exI [of _ "[?c]"])
      next
        case (Inr u)
        from Cons.IH [of s'] obtain ops where
          "trace (snd (reconcile_local E tn upstream items s')) = trace s' @ ops"
          "list_all index_call ops" by blast
        with sc False Some p t Inr show ?thesis
          by (auto intro!: exI [of _ "?c # ops"])
      qed
    qed
  qed
qed

lemma reconcile_upstream_trace:
  "\<exists>ops. trace (snd (reconcile_upstream E tn local names s)) = trace s @ ops \<and>
         list_all index_call ops"
proof (induction names arbitrary: s)
  case Nil
  then show ?case by simp
next
  case (Cons name names)
  show ?case
  proof (cases "name \<notin> set (map fst local)")
    case False
    with Cons.IH [of s] show ?thesis by simp
  next
    case True
    let ?c = "DeleteGSI tn name"
    obtain r s' where sc: "service_call E ?c s = (r, s')" by fastforce
    with service_call_trace [of E ?c s] have t: "trace s' = trace s @ [?c]" by simp
    show ?thesis
    proof (cases r)
      case (Inl e)
      with sc True t show ?thesis
        by (auto intro!: exI [of _ "[?c]"])
    next
      case (Inr u)
      from Cons.IH [of s'] obtain ops where
        "trace (snd (reconcile_upstream E tn local names s')) = trace s' @ ops"
        "list_all index_call ops" by blast
      with sc True t Inr show ?thesis
        by (auto intro!: exI [of _ "?c # ops"])
    qed
  qed
qed


text \<open>
  Whatever the service answers: once the table is described and the primary key
  validates, the first call after the describe call is the primary throughput update
  with the \<^verbatim>\<open>throughput\<close> argument as received, and every later call is an index call.
\<close>

lemma update_table_primary_update:
  assumes init: "get_table_init_data E table_name connection throughput s = (Inr db_table, s0)"
    and desc: "describe E (trace s0) (t_table_name db_table) = Inr md"
    and valid: "validate_schema (t_schema db_table) md = Inr ()"
  shows "\<exists>ops. trace (snd (update_table E table_name connection throughput s))
                 = trace s @ [Describe (t_table_name db_table),
                              Update (t_table_name db_table) throughput] @ ops
               \<and> list_all index_call ops"
proof -
  let ?tn = "t_table_name db_table"
  let ?local = "py_dict (map (\<lambda>ix. (ix_name ix, ix)) (t_global_indexes db_table))"
  let ?up = "py_dict (map (\<lambda>ix. (IndexName ix, ix)) (upstream_indexes md))"
  let ?s1 = "s0\<lparr>trace := trace s0 @ [Describe ?tn]\<rparr>"
  have tr: "trace s0 = trace s"
    using init by (rule get_table_init_data_trace)
  have outer: "trace (snd (update_table E table_name connection throughput s))
               = trace (snd (update_table_try E db_table ?local throughput s0))"
    by (auto simp: update_table_def init Let_def split: prod.splits sum.splits exn.splits)
  obtain r2 s2 where u: "service_call E (Update ?tn throughput) ?s1 = (r2, s2)" by fastforce
  with service_call_trace [of E "Update ?tn throughput" ?s1]
  have t2: "trace s2 = trace s @ [Describe ?tn, Update ?tn throughput]"
    by (simp add: tr)
  show ?thesis
  proof (cases r2)
    case (Inl e)
    with u desc valid have "trace (snd (update_table_try E db_table ?local throughput s0)) = trace s2"
      by (simp add: update_table_try_def table_describe_def)
    with outer t2 show ?thesis by (auto intro!: exI [of _ "[]"])
  next
    case (Inr x)
    obtain r3 s3 where l: "reconcile_local E ?tn ?up (dict_items E ?local) s2 = (r3, s3)"
      by fastforce
    from reconcile_local_trace [of E ?tn ?up "dict_items E ?local" s2] l obtain ops1 where
      o1: "trace s3 = trace s2 @ ops1" "list_all index_call ops1" by auto
    show ?thesis
    proof (cases r3)
      case (Inl e)
      with u desc valid Inr l
      have "trace (snd (update_table_try E db_table ?local throughput s0)) = trace s3"
        by (simp add: update_table_try_def table_describe_def Let_def)
      with outer t2 o1 show ?thesis by (auto intro!: exI [of _ ops1])
    next
      case r3: (Inr y)
      from reconcile_upstream_trace [of E ?tn ?local "dict_keys E ?up" s3] obtain ops2 where
        o2: "trace (snd (reconcile_upstream E ?tn ?local (dict_keys E ?up) s3)) = trace s3 @ ops2"
          "list_all index_call ops2" by blast
      from u desc valid Inr l r3
      have "trace (snd (update_table_try E db_table ?local throughput s0))
            = trace (snd (reconcile_upstream E ?tn ?local (dict_keys E ?up) s3))"
        by (simp add: update_table_try_def table_describe_def Let_def)
      with outer t2 o1 o2 show ?thesis by (auto intro!: exI [of _ "ops1 @ ops2"])
    qed
  qed
qed

lemma example_env_simps:
  "respond example_env h c = None"
  "describe example_env h tn = Inr example_metadata"
  "key_order example_env = rev"
  "fields_key example_env = boto_fields_key"
  "fields_index example_env = boto_fields_index"
  "types example_env = boto_types"
  by (simp_all add: example_env_def)

text \<open>
  C4. With the \<^verbatim>\<open>throughput\<close> argument omitted, the resolved throughput is the
  configured default (10/10 in the example, and the handle carries it), but the one
  update call that \<^verbatim>\<open>update_table\<close> makes on the primary table carries the argument as
  received, \<^verbatim>\<open>False\<close>, not the resolved throughput.
\<close>

theorem update_table_update_call_unresolved:
  "get_or_default_throughput example_env None loaded_state
   = (Inr \<lparr>read_capacity = 10, write_capacity = 10\<rparr>, loaded_state)
   \<and> update_table example_env ''users'' None None loaded_state
   = (Inr example_table,
      loaded_state\<lparr>trace :=
        [Describe ''dev_users'', Update ''dev_users'' None,
         UpdateGSI ''dev_users'' ''B'' \<lparr>read_capacity = 5, write_capacity = 5\<rparr>,
         CreateGSI ''dev_users'' (hd (t_global_indexes example_table)),
         DeleteGSI ''dev_users'' ''C'']\<rparr>)"
proof -
  have 1: "get_table_init_data example_env ''users'' None None loaded_state
           = (Inr example_table, loaded_state)"
    using init_data_example_env [of example_env None]
    by (simp add: example_env_simps example_table_def)
  have a: "get_or_default_throughput example_env None loaded_state
           = (Inr \<lparr>read_capacity = 10, write_capacity = 10\<rparr>, loaded_state)"
    by (simp add: get_or_default_throughput_def get_config_def loaded_state_def
        example_config_def example_yaml_def)
  have b: "update_table example_env ''users'' None None loaded_state
   = (Inr example_table,
      loaded_state\<lparr>trace :=
        [Describe ''dev_users'', Update ''dev_users'' None,
         UpdateGSI ''dev_users'' ''B'' \<lparr>read_capacity = 5, write_capacity = 5\<rparr>,
         CreateGSI ''dev_users'' (hd (t_global_indexes example_table)),
         DeleteGSI ''dev_users'' ''C'']\<rparr>)"
    unfolding update_table_def 1
    by (simp add: update_table_eval example_env_simps)
  from a b show ?thesis by simp
qed

section \<open>Properties of the configuration in the store\<close>

lemma with_yaml_with_yaml: "with_yaml (yaml c) (with_yaml a c) = c"
  by (simp add: with_yaml_def)

lemma yaml_with_yaml [simp]: "yaml (with_yaml a c) = a"
  by (simp add: with_yaml_def)

lemma yaml_set_field [simp]: "yaml (set_field f v b) = yaml b"
  by (cases f) simp_all

lemma lookup_take: "lookup (take n h) a = (if a < n then lookup h a else None)"
  by (auto simp: lookup_def)

text \<open>A configuration that is readable in a prefix of the store is readable in the store.\<close>

lemma read_config_take:
  "read_config (take n h) a = Some c \<Longrightarrow> read_config h a = Some c"
  by (auto simp: read_config_def lookup_take split: option.splits obj.splits if_splits)

lemma read_config_append:
  "read_config h a = Some c \<Longrightarrow> read_config (h @ h') a = Some c"
  using read_config_take [of "length h" "h @ h'" a c] by simp

lemma read_copy:
  assumes "copy_config h c = (r, h')"
  shows "r = Suc (length h)"
    and "h' = h @ [Doc (yaml c), Bunch (with_yaml (length h) c)]"
    and "read_config h' r = Some c"
  using assms
  by (auto simp: copy_config_def alloc_def read_config_def lookup_def nth_append
      with_yaml_with_yaml)

lemma owned_apply_mutation:
  assumes "owned n h0 r h"
  shows "owned n h0 r (apply_mutation r h m)"
proof -
  from assms obtain b where
    t: "take n h = h0" and n: "n \<le> length h" and r: "n \<le> r"
    and b: "lookup h r = Some (Bunch b)" and y: "n \<le> yaml b"
    by (auto simp: owned_def)
  from b have rl: "r < length h" and hr: "h ! r = Bunch b"
    by (auto simp: lookup_def split: if_splits)
  show ?thesis
  proof (cases m)
    case (SetAttr f v)
    then show ?thesis
      using t n r b y rl by (auto simp: owned_def lookup_def)
  next
    case (MutateYaml g)
    show ?thesis
    proof (cases "lookup h (yaml b)")
      case None
      then show ?thesis using assms b MutateYaml by simp
    next
      case (Some ob)
      show ?thesis
      proof (cases ob)
        case (Bunch b')
        then show ?thesis using assms b Some MutateYaml by simp
      next
        case (Doc d)
        with Some hr rl have ne: "yaml b \<noteq> r"
          by (auto simp: lookup_def split: if_splits)
        from Doc Some b MutateYaml
        have "apply_mutation r h m = h[yaml b := Doc (g d)]" by simp
        then show ?thesis
          using t n r y rl hr ne by (auto simp: owned_def lookup_def)
      qed
    qed
  next
    case (RebindYaml d)
    with b have "apply_mutation r h m = (h @ [Doc d])[r := Bunch (b\<lparr>yaml := length h\<rparr>)]"
      by (simp add: alloc_def)
    then show ?thesis
      using t n r rl by (auto simp: owned_def lookup_def)
  qed
qed

lemma owned_foldl:
  "owned n h0 r h \<Longrightarrow> owned n h0 r (foldl (apply_mutation r) h ms)"
  by (induction ms arbitrary: h) (auto intro: owned_apply_mutation)

lemma owned_read:
  assumes "owned n h0 r h" and "read_config h0 a = Some c"
  shows "read_config h a = Some c"
  using assms read_config_take [of n h a c] by (simp add: owned_def)


lemma return_copy_owned:
  assumes "return_copy hs = (Inr r, hs1)"
  shows "\<exists>a c. cached_ref hs = Some a \<and> cached_ref hs1 = Some a \<and> a < length (heap hs) \<and>
               read_config (heap hs) a = Some c \<and> read_config (heap hs1) r = Some c \<and>
               owned (length (heap hs)) (heap hs) r (heap hs1)"
proof -
  from assms obtain a c where a: "cached_ref hs = Some a"
    and c: "read_config (heap hs) a = Some c"
    and cp: "copy_config (heap hs) c = (r, heap hs1)" and a1: "cached_ref hs1 = Some a"
    by (auto simp: return_copy_def split: option.splits prod.splits)
  from c have al: "a < length (heap hs)"
    by (auto simp: read_config_def lookup_def split: if_splits)
  note r = read_copy(1) [OF cp] and h = read_copy(2) [OF cp] and rc = read_copy(3) [OF cp]
  have "owned (length (heap hs)) (heap hs) r (heap hs1)"
    by (simp add: owned_def r h lookup_def nth_append)
  with a a1 al c rc show ?thesis by blast
qed

lemma get_config_h_after_load:
  assumes "cached_ref hs = None \<longrightarrow> fst (set_config_h E kw hs) = Inr ()"
  shows "get_config_h E kw hs = return_copy (store_after_load E kw hs)"
  using assms
  by (cases "set_config_h E kw hs")
     (auto simp: get_config_h_def store_after_load_def split: option.splits)

lemma return_copy_total:
  assumes "cached_ref hs = Some a" and "read_config (heap hs) a = Some c"
  shows "\<exists>r hs1. return_copy hs = (Inr r, hs1) \<and> cached_ref hs1 = Some a \<and>
                 a < length (heap hs) \<and> read_config (heap hs1) r = Some c \<and>
                 owned (length (heap hs)) (heap hs) r (heap hs1)"
proof -
  obtain r h' where cp: "copy_config (heap hs) c = (r, h')" by fastforce
  with assms have rc: "return_copy hs = (Inr r, hs\<lparr>heap := h'\<rparr>)"
    by (simp add: return_copy_def)
  from return_copy_owned [OF rc] assms rc show ?thesis by auto
qed

lemma owned_prefix: "owned n h0 r h \<Longrightarrow> take n h = h0 \<and> n \<le> r"
  by (simp add: owned_def)

text \<open>
  C8. Let the cache hold the configuration \<open>c\<close> at the reference \<open>a\<close>, in the store that
  \<^verbatim>\<open>get_config\<close> is called in or, on a first call, in the store that a successful
  \<^verbatim>\<open>set_config\<close> leaves. Then \<^verbatim>\<open>get_config\<close> returns a reference \<open>r\<close> to an object
  allocated by the call, distinct from \<open>a\<close>, that reads as \<open>c\<close>; the call leaves the global
  and every object that existed before as they were. Whatever sequence of mutations the
  caller applies through \<open>r\<close> (attribute assignments, in-place changes of the document,
  rebinding of the document), the global and those objects stay as they were, so the
  cache still reads as \<open>c\<close>, and every later \<^verbatim>\<open>get_config\<close> returns an object that
  reads as \<open>c\<close> and leaves the cache reading as \<open>c\<close>.
\<close>

theorem get_config_returns_deep_copy:
  assumes load: "cached_ref hs = None \<longrightarrow> fst (set_config_h E kw hs) = Inr ()"
    and cache: "cached_ref (store_after_load E kw hs) = Some a"
    and conf: "read_config (heap (store_after_load E kw hs)) a = Some c"
  shows "\<exists>r hs1. get_config_h E kw hs = (Inr r, hs1) \<and>
           length (heap (store_after_load E kw hs)) \<le> r \<and> r \<noteq> a \<and>
           cached_ref hs1 = Some a \<and>
           take (length (heap (store_after_load E kw hs))) (heap hs1)
             = heap (store_after_load E kw hs) \<and>
           read_config (heap hs1) a = Some c \<and> read_config (heap hs1) r = Some c \<and>
           (\<forall>ms. cached_ref (mutate r ms hs1) = Some a \<and>
                 take (length (heap (store_after_load E kw hs))) (heap (mutate r ms hs1))
                   = heap (store_after_load E kw hs) \<and>
                 read_config (heap (mutate r ms hs1)) a = Some c \<and>
                 (\<forall>kw'. \<exists>r' hs2. get_config_h E kw' (mutate r ms hs1) = (Inr r', hs2) \<and>
                                  cached_ref hs2 = Some a \<and>
                                  read_config (heap hs2) a = Some c \<and>
                                  read_config (heap hs2) r' = Some c))"
proof -
  let ?hs0 = "store_after_load E kw hs"
  let ?n = "length (heap ?hs0)"
  from return_copy_total [OF cache conf] obtain r hs1 where
    rc: "return_copy ?hs0 = (Inr r, hs1)" and a1: "cached_ref hs1 = Some a"
    and al: "a < ?n" and cr: "read_config (heap hs1) r = Some c"
    and own: "owned ?n (heap ?hs0) r (heap hs1)"
    by blast
  have g: "get_config_h E kw hs = (Inr r, hs1)"
    using get_config_h_after_load [OF load] rc by simp
  from owned_prefix [OF own] have pre: "take ?n (heap hs1) = heap ?hs0" and fresh: "?n \<le> r"
    by simp_all
  from fresh al have ne: "r \<noteq> a" by simp
  have c1: "read_config (heap hs1) a = Some c"
    using own conf by (rule owned_read)
  have after: "cached_ref (mutate r ms hs1) = Some a \<and>
               take ?n (heap (mutate r ms hs1)) = heap ?hs0 \<and>
               read_config (heap (mutate r ms hs1)) a = Some c \<and>
               (\<forall>kw'. \<exists>r' hs2. get_config_h E kw' (mutate r ms hs1) = (Inr r', hs2) \<and>
                                cached_ref hs2 = Some a \<and>
                                read_config (heap hs2) a = Some c \<and>
                                read_config (heap hs2) r' = Some c)" for ms
  proof -
    let ?m = "mutate r ms hs1"
    have ref: "cached_ref ?m = Some a"
      by (simp add: mutate_def a1)
    have ownm: "owned ?n (heap ?hs0) r (heap ?m)"
      using own by (simp add: mutate_def owned_foldl)
    from owned_prefix [OF ownm] have prem: "take ?n (heap ?m) = heap ?hs0" by simp
    have rd: "read_config (heap ?m) a = Some c"
      using ownm conf by (rule owned_read)
    have later: "\<exists>r' hs2. get_config_h E kw' ?m = (Inr r', hs2) \<and> cached_ref hs2 = Some a \<and>
                   read_config (heap hs2) a = Some c \<and> read_config (heap hs2) r' = Some c" for kw'
    proof -
      from return_copy_total [OF ref rd] obtain r' hs2 where
        rc': "return_copy ?m = (Inr r', hs2)" and a2: "cached_ref hs2 = Some a"
        and cr': "read_config (heap hs2) r' = Some c"
        and own': "owned (length (heap ?m)) (heap ?m) r' (heap hs2)"
        by blast
      have "read_config (heap hs2) a = Some c"
        using own' rd by (rule owned_read)
      moreover have "get_config_h E kw' ?m = (Inr r', hs2)"
        using ref rc' by (simp add: get_config_h_def)
      ultimately show ?thesis using a2 cr' by blast
    qed
    from ref prem rd later show ?thesis by blast
  qed
  from g fresh ne a1 pre c1 cr after show ?thesis by blast
qed

lemma loaded_store_eq:
  "loaded_store = \<lparr>heap = [Doc example_yaml, Bunch (with_yaml 0 example_config)], cached_ref = Some 1\<rparr>"
  by (simp add: loaded_store_def set_config_h_def example_env_def no_kwargs_def config_path_def
      alloc_def resolve_fields_def check_fields_def py_or_def environ_get_def with_yaml_def
      example_config_def)

lemma get_config_h_loaded_store:
  "get_config_h example_env no_kwargs loaded_store = (Inr 3, copied_store)"
  by (simp add: loaded_store_eq get_config_h_def return_copy_def read_config_def lookup_def
      copy_config_def alloc_def with_yaml_def copied_store_def example_config_def)

lemma read_loaded_store: "read_config (heap loaded_store) 1 = Some example_config"
  by (simp add: loaded_store_eq read_config_def lookup_def with_yaml_def example_config_def)

lemma set_config_h_empty_store:
  "set_config_h example_env no_kwargs \<lparr>heap = [], cached_ref = None\<rparr> = (Inr (), loaded_store)"
  by (simp add: loaded_store_eq set_config_h_def example_env_def no_kwargs_def config_path_def
      alloc_def resolve_fields_def check_fields_def py_or_def environ_get_def with_yaml_def
      example_config_def)

theorem get_config_returns_deep_copy_witness:
  "get_config_h example_env no_kwargs loaded_store = (Inr 3, copied_store)
   \<and> get_config_h example_env no_kwargs \<lparr>heap = [], cached_ref = None\<rparr> = (Inr 3, copied_store)
   \<and> cached_ref (mutate 3 example_mutations copied_store) = Some 1
   \<and> take 2 (heap (mutate 3 example_mutations copied_store)) = heap loaded_store
   \<and> read_config (heap (mutate 3 example_mutations copied_store)) 1 = Some example_config
   \<and> read_config (heap (mutate 3 example_mutations copied_store)) 3
       = Some (example_config\<lparr>yaml := example_yaml\<lparr>indexes := None, default_throughput := None\<rparr>,
                              namespace := PyStr ''prod_'', port := PyInt 1\<rparr>)"
proof -
  have sl: "store_after_load example_env no_kwargs loaded_store = loaded_store"
    by (simp add: store_after_load_def loaded_store_eq)
  have se: "store_after_load example_env no_kwargs \<lparr>heap = [], cached_ref = None\<rparr> = loaded_store"
    by (simp add: store_after_load_def set_config_h_empty_store)
  have ref: "cached_ref loaded_store = Some 1" and len: "length (heap loaded_store) = 2"
    by (simp_all add: loaded_store_eq)
  have l1: "cached_ref loaded_store = None \<longrightarrow>
            fst (set_config_h example_env no_kwargs loaded_store) = Inr ()"
    by (simp add: ref)
  have l2: "cached_ref \<lparr>heap = [], cached_ref = None\<rparr> = None \<longrightarrow>
            fst (set_config_h example_env no_kwargs \<lparr>heap = [], cached_ref = None\<rparr>) = Inr ()"
    by (simp add: set_config_h_empty_store)
  from get_config_returns_deep_copy [of loaded_store example_env no_kwargs 1 example_config, OF l1]
    sl ref read_loaded_store len
  obtain r hs1 where g: "get_config_h example_env no_kwargs loaded_store = (Inr r, hs1)"
    and m: "\<And>ms. cached_ref (mutate r ms hs1) = Some 1 \<and>
                 take 2 (heap (mutate r ms hs1)) = heap loaded_store \<and>
                 read_config (heap (mutate r ms hs1)) 1 = Some example_config"
    by auto
  from g have r: "r = 3" and hs1: "hs1 = copied_store"
    by (simp_all add: get_config_h_loaded_store)
  from get_config_returns_deep_copy
    [of "\<lparr>heap = [], cached_ref = None\<rparr>" example_env no_kwargs 1 example_config, OF l2]
    se ref read_loaded_store
  obtain r' hs1' where
    g': "get_config_h example_env no_kwargs \<lparr>heap = [], cached_ref = None\<rparr> = (Inr r', hs1')"
    and fresh: "r' \<noteq> 1" and cr: "read_config (heap hs1') r' = Some example_config"
    by auto
  have first: "get_config_h example_env no_kwargs \<lparr>heap = [], cached_ref = None\<rparr>
               = (Inr 3, copied_store)"
  proof -
    have "return_copy loaded_store = (Inr 3, copied_store)"
      using get_config_h_loaded_store ref by (simp add: get_config_h_def)
    then show ?thesis
      by (simp add: get_config_h_def set_config_h_empty_store)
  qed
  have own: "read_config (heap (mutate 3 example_mutations copied_store)) 3
       = Some (example_config\<lparr>yaml := example_yaml\<lparr>indexes := None, default_throughput := None\<rparr>,
                              namespace := PyStr ''prod_'', port := PyInt 1\<rparr>)"
    by (simp add: mutate_def example_mutations_def copied_store_def read_config_def lookup_def
        alloc_def with_yaml_def example_config_def)
  from m [of example_mutations] own first show ?thesis
    by (simp add: r hs1 get_config_h_loaded_store)
qed

text \<open>
  The copy is what protects the cache: the same assignment made through the cached
  reference itself changes what the cache reads.
\<close>

lemma mutation_through_cached_reference:
  "read_config (heap (mutate 1 [SetAttr Namespace (PyStr ''prod_'')] loaded_store)) 1
   = Some (example_config\<lparr>namespace := PyStr ''prod_''\<rparr>)"
  by (simp add: loaded_store_eq mutate_def read_config_def lookup_def with_yaml_def
      example_config_def)

subsection \<open>Agreement with the value-level model\<close>

lemma with_yaml_resolve_fields: "with_yaml y (resolve_fields E kw a) = resolve_fields E kw y"
  by (simp add: with_yaml_def resolve_fields_def)

lemma with_yaml_simps [simp]:
  "namespace (with_yaml y b) = namespace b"
  "aws_access_key_id (with_yaml y b) = aws_access_key_id b"
  "aws_secret_access_key (with_yaml y b) = aws_secret_access_key b"
  "host (with_yaml y b) = host b"
  "port (with_yaml y b) = port b"
  "is_secure (with_yaml y b) = is_secure b"
  "with_yaml y (b\<lparr>port := p\<rparr>) = (with_yaml y b)\<lparr>port := p\<rparr>"
  by (simp_all add: with_yaml_def)

lemma check_fields_with_yaml:
  "check_fields (with_yaml y b) = (case check_fields b of Inl e \<Rightarrow> Inl e | Inr b' \<Rightarrow> Inr (with_yaml y b'))"
proof (cases "py_int (port b)")
  case (Inl e)
  then show ?thesis by (cases e) (simp_all add: check_fields_def)
next
  case (Inr n)
  then show ?thesis by (simp add: check_fields_def)
qed

lemma yaml_check_fields: "check_fields b = Inr b' \<Longrightarrow> yaml b' = yaml b"
  by (cases "py_int (port b)") (auto simp: check_fields_def split: if_splits exn.splits)


lemma read_new_bunch:
  "yaml b' = length h \<Longrightarrow>
   read_config (h @ [Doc y, Bunch b']) (Suc (length h)) = Some (with_yaml y b')"
  by (simp add: read_config_def lookup_def nth_append)

lemma set_config_h_refines:
  assumes "set_config_h E kw hs = (res, hs')"
  shows "set_config E kw (abs_state t hs) = (res, abs_state t hs')"
proof (cases "load_yaml E (config_path E kw)")
  case (Inl e)
  with assms show ?thesis by (simp add: set_config_h_def set_config_def)
next
  case y: (Inr y)
  let ?n = "length (heap hs)"
  let ?b = "resolve_fields E kw ?n :: addr bunch"
  have yb: "yaml ?b = ?n" by (simp add: resolve_fields_def)
  show ?thesis
  proof (cases "check_fields ?b")
    case (Inl e)
    with assms y have res: "res = Inl e"
      and hs': "hs' = hs\<lparr>heap := heap hs @ [Doc y, Bunch ?b], cached_ref := Some (Suc ?n)\<rparr>"
      by (auto simp: set_config_h_def alloc_def Let_def)
    have c: "check_fields (resolve_fields E kw y :: config) = Inl e"
      using check_fields_with_yaml [of y ?b] Inl by (simp add: with_yaml_resolve_fields)
    have "abs_state t hs' = \<lparr>cached_config = Some (resolve_fields E kw y), trace = t\<rparr>"
      by (simp add: abs_state_def hs' read_new_bunch [OF yb] with_yaml_resolve_fields)
    then show ?thesis
      using y c by (simp add: set_config_def res abs_state_def)
  next
    case (Inr b')
    with assms y have res: "res = Inr ()"
      and hs': "hs' = hs\<lparr>heap := heap hs @ [Doc y, Bunch b'], cached_ref := Some (Suc ?n)\<rparr>"
      by (auto simp: set_config_h_def alloc_def Let_def)
    have yb': "yaml b' = ?n"
      using yaml_check_fields [OF Inr] yb by simp
    have c: "check_fields (resolve_fields E kw y :: config) = Inr (with_yaml y b')"
      using check_fields_with_yaml [of y ?b] Inr by (simp add: with_yaml_resolve_fields)
    have "abs_state t hs' = \<lparr>cached_config = Some (with_yaml y b'), trace = t\<rparr>"
      by (simp add: abs_state_def hs' read_new_bunch [OF yb'])
    then show ?thesis
      using y c by (simp add: set_config_def res abs_state_def)
  qed
qed


lemma return_copy_refines:
  assumes "return_copy hs = (Inr r, hs')"
  shows "\<exists>c. read_config (heap hs') r = Some c \<and> cached_config (abs_state t hs) = Some c \<and>
             abs_state t hs' = abs_state t hs"
proof -
  from return_copy_owned [OF assms] obtain a c where
    a: "cached_ref hs = Some a" and a': "cached_ref hs' = Some a"
    and c: "read_config (heap hs) a = Some c" and r: "read_config (heap hs') r = Some c"
    and own: "owned (length (heap hs)) (heap hs) r (heap hs')"
    by blast
  have "read_config (heap hs') a = Some c"
    using own c by (rule owned_read)
  with a a' c r show ?thesis by (simp add: abs_state_def)
qed

lemma get_config_h_refines:
  assumes "get_config_h E kw hs = (Inr r, hs')"
  shows "\<exists>c. read_config (heap hs') r = Some c \<and>
             get_config E kw (abs_state t hs) = (Inr c, abs_state t hs')"
proof (cases "cached_ref hs")
  case (Some a)
  with assms have rc: "return_copy hs = (Inr r, hs')" by (simp add: get_config_h_def)
  from return_copy_refines [OF rc, of t] obtain c where
    "read_config (heap hs') r = Some c" "cached_config (abs_state t hs) = Some c"
    "abs_state t hs' = abs_state t hs" by blast
  then show ?thesis by (simp add: get_config_def)
next
  case None
  with assms obtain hs1 where sc: "set_config_h E kw hs = (Inr (), hs1)"
    and rc: "return_copy hs1 = (Inr r, hs')"
    by (auto simp: get_config_h_def split: prod.splits sum.splits)
  from None have n: "cached_config (abs_state t hs) = None" by (simp add: abs_state_def)
  from return_copy_refines [OF rc, of t] obtain c where
    c: "read_config (heap hs') r = Some c" "cached_config (abs_state t hs1) = Some c"
    "abs_state t hs' = abs_state t hs1" by blast
  with n set_config_h_refines [OF sc, of t] show ?thesis
    by (simp add: get_config_def)
qed

text \<open>
  On a first call that loads the configuration, the cache holds what the value-level
  \<^const>\<open>set_config\<close> caches.
\<close>

lemma set_config_h_loads:
  assumes "set_config_h E kw hs = (Inr (), hs0)"
  shows "\<exists>a c. cached_ref hs0 = Some a \<and> read_config (heap hs0) a = Some c \<and>
               set_config E kw (abs_state t hs) = (Inr (), \<lparr>cached_config = Some c, trace = t\<rparr>)"
proof -
  from assms obtain y where y: "load_yaml E (config_path E kw) = Inr y"
    by (cases "load_yaml E (config_path E kw)") (auto simp: set_config_h_def)
  from set_config_cached_fields [OF y, of "abs_state t hs"] obtain c where
    c: "cached_config (snd (set_config E kw (abs_state t hs))) = Some c" by blast
  from set_config_h_refines [OF assms, of t]
  have r: "set_config E kw (abs_state t hs) = (Inr (), abs_state t hs0)" .
  with c have "cached_config (abs_state t hs0) = Some c" by simp
  then obtain a where "cached_ref hs0 = Some a" "read_config (heap hs0) a = Some c"
    by (auto simp: abs_state_def split: option.splits)
  moreover from this have "abs_state t hs0 = \<lparr>cached_config = Some c, trace = t\<rparr>"
    by (simp add: abs_state_def)
  ultimately show ?thesis using r by auto
qed

end
